theory Spec2Isabelle
  imports Main
begin

section \<open>Decimal text of a number\<close>

text \<open>What a template literal writes for a whole number.\<close>

definition digit_char :: "nat \<Rightarrow> char" where
  "digit_char d = ''0123456789'' ! d"

fun show_nat :: "nat \<Rightarrow> string" where
  "show_nat n = (if n < 10 then [digit_char n] else show_nat (n div 10) @ [digit_char (n mod 10)])"

declare show_nat.simps [simp del]

definition show_int :: "int \<Rightarrow> string" where
  "show_int i = (if i < 0 then CHR ''-'' # show_nat (nat (- i)) else show_nat (nat i))"

section \<open>Values and dates of the host language\<close>

text \<open>
  The values that the form accessors exchange with the page. A \<^verbatim>\<open>Date\<close> object is its
  time value: \<open>VDate (Some t)\<close> is the instant \<open>t\<close> milliseconds after the epoch and
  \<open>VDate None\<close> is an invalid date (time value \<^verbatim>\<open>NaN\<close>). Lookup values (arrays of
  references) are not modelled.
\<close>

datatype jsval =
    VUndefined
  | VNull
  | VBool bool
  | VNum int
  | VStr string
  | VDate "int option"

text \<open>
  What an operation throws: the four errors raised by the accessors themselves, with the
  name or the index and row count of their message, and the two errors of the host language
  that their code can run into.
\<close>

datatype error =
    AttributeNotFound string
  | ControlNotFound string
  | SubgridNotFound string
  | NotEditable string
  | IndexOutOfRange nat nat
  | RangeError
  | TypeError

type_synonym 'a result = "error + 'a"

text \<open>
  \<^verbatim>\<open>Object.prototype.toString.call(value) === '[object Date]'\<close> and
  \<^verbatim>\<open>value instanceof Date\<close>.
\<close>

fun is_Date :: "jsval \<Rightarrow> bool" where
  "is_Date (VDate tv) = True"
| "is_Date v = False"

text \<open>
  The built-in date functions the accessors call. A time value is valid when it lies within
  \<open>8.64 * 10^15\<close> milliseconds of the epoch.
\<close>

definition valid_time :: "int \<Rightarrow> bool" where
  "valid_time t \<longleftrightarrow> - 8640000000000000 \<le> t \<and> t \<le> 8640000000000000"

definition TimeClip :: "int \<Rightarrow> int option" where
  "TimeClip t = (if valid_time t then Some t else None)"

text \<open>
  The proleptic Gregorian calendar, counted in days from 1970-01-01. Both directions work on
  years that begin on 1 March: \<open>era\<close> is the 400-year cycle, \<open>doe\<close> the day within it,
  \<open>yoe\<close> the year within it and \<open>doy\<close> the day within that year.
\<close>

definition civil_from_days :: "int \<Rightarrow> int \<times> int \<times> int" where
  "civil_from_days z =
     (let z' = z + 719468;
          era = z' div 146097;
          doe = z' mod 146097;
          c = min 3 (doe div 36524);
          doc = doe - 36524 * c;
          q = doc div 1461;
          doq = doc mod 1461;
          yq = min 3 (doq div 365);
          doy = doq - 365 * yq;
          yoe = 100 * c + 4 * q + yq;
          mp = (5 * doy + 2) div 153;
          d = doy - (153 * mp + 2) div 5 + 1;
          m = (if mp < 10 then mp + 3 else mp - 9);
          y = yoe + 400 * era + (if m \<le> 2 then 1 else 0)
      in (y, m, d))"

definition days_from_civil :: "int \<Rightarrow> int \<Rightarrow> int \<Rightarrow> int" where
  "days_from_civil y m d =
     (let y' = y - (if m \<le> 2 then 1 else 0);
          era = y' div 400;
          yoe = y' mod 400;
          mp = (if m > 2 then m - 3 else m + 9);
          doy = (153 * mp + 2) div 5 + d - 1;
          doe = 365 * yoe + yoe div 4 - yoe div 100 + doy
      in 146097 * era + doe - 719468)"

text \<open>Fixed-width decimal fields and their reading.\<close>

fun pad_digits :: "nat \<Rightarrow> nat \<Rightarrow> string" where
  "pad_digits 0 n = []"
| "pad_digits (Suc k) n = pad_digits k (n div 10) @ [digit_char (n mod 10)]"

definition digit_val :: "char \<Rightarrow> nat option" where
  "digit_val ch = map_of (zip ''0123456789'' [0, 1, 2, 3, 4, 5, 6, 7, 8, 9]) ch"

fun parse_digits :: "nat \<Rightarrow> string \<Rightarrow> nat option" where
  "parse_digits acc [] = Some acc"
| "parse_digits acc (ch # cs) =
     (case digit_val ch of None \<Rightarrow> None | Some d \<Rightarrow> parse_digits (10 * acc + d) cs)"

definition field :: "string \<Rightarrow> nat \<Rightarrow> nat \<Rightarrow> nat option" where
  "field s i k = parse_digits 0 (take k (drop i s))"

text \<open>
  \<^verbatim>\<open>Date.prototype.toISOString\<close> on a valid time value: \<^verbatim>\<open>YYYY-MM-DDTHH:mm:ss.sssZ\<close>, the
  year written with a sign and six digits when it is outside 0..9999.
\<close>

definition toISOString :: "int \<Rightarrow> string" where
  "toISOString t =
     (let day = t div 86400000;
          tid = t mod 86400000;
          (y, m, d) = civil_from_days day;
          year = (if 0 \<le> y \<and> y \<le> 9999 then pad_digits 4 (nat y)
                  else (if y < 0 then CHR ''-'' else CHR ''+'') # pad_digits 6 (nat \<bar>y\<bar>))
      in year @ ''-'' @ pad_digits 2 (nat m) @ ''-'' @ pad_digits 2 (nat d)
           @ ''T'' @ pad_digits 2 (nat (tid div 3600000))
           @ '':'' @ pad_digits 2 (nat (tid div 60000 mod 60))
           @ '':'' @ pad_digits 2 (nat (tid div 1000 mod 60))
           @ ''.'' @ pad_digits 3 (nat (tid mod 1000)) @ ''Z'')"

text \<open>
  Reading the complete date-time form \<^verbatim>\<open>YYYY-MM-DDTHH:mm:ss.sssZ\<close> (with a signed six-digit
  year as well): \<open>parse_iso\<close> reads the fields and adds them up; it does not yet decide
  whether the text names a real day.
\<close>

definition parse_date_time :: "int \<Rightarrow> string \<Rightarrow> int option" where
  "parse_date_time y s =
     (if length s = 20 \<and> s ! 0 = CHR ''-'' \<and> s ! 3 = CHR ''-'' \<and> s ! 6 = CHR ''T''
         \<and> s ! 9 = CHR '':'' \<and> s ! 12 = CHR '':'' \<and> s ! 15 = CHR ''.'' \<and> s ! 19 = CHR ''Z''
      then
        (case (field s 1 2, field s 4 2, field s 7 2, field s 10 2, field s 13 2, field s 16 3) of
           (Some m, Some d, Some h, Some mi, Some sec, Some ms) \<Rightarrow>
             if 1 \<le> m \<and> m \<le> 12 \<and> 1 \<le> d \<and> d \<le> 31 \<and> mi \<le> 59 \<and> sec \<le> 59
                \<and> (h \<le> 23 \<or> (h = 24 \<and> mi = 0 \<and> sec = 0 \<and> ms = 0))
             then TimeClip (days_from_civil y (int m) (int d) * 86400000
                            + int h * 3600000 + int mi * 60000 + int sec * 1000 + int ms)
             else None
         | _ \<Rightarrow> None)
      else None)"

definition parse_iso :: "string \<Rightarrow> int option" where
  "parse_iso s =
     (case s of
        [] \<Rightarrow> None
      | ch # cs \<Rightarrow>
          if ch = CHR ''+'' \<or> ch = CHR ''-'' then
            (case field cs 0 6 of
               None \<Rightarrow> None
             | Some y \<Rightarrow>
                 if length cs < 6 \<or> (ch = CHR ''-'' \<and> y = 0) then None
                 else parse_date_time (if ch = CHR ''-'' then - int y else int y) (drop 6 cs))
          else
            (case field s 0 4 of
               None \<Rightarrow> None
             | Some y \<Rightarrow> if length s < 4 then None else parse_date_time (int y) (drop 4 s)))"

text \<open>
  A text is written by \<^verbatim>\<open>toISOString\<close> when reading it and writing the result gives the
  same text back; this excludes texts such as 30 February.
\<close>

definition written_by_toISOString :: "string \<Rightarrow> int option" where
  "written_by_toISOString s =
     (case parse_iso s of
        None \<Rightarrow> None
      | Some t \<Rightarrow> if toISOString t = s then Some t else None)"

text \<open>
  \<^verbatim>\<open>Date.parse\<close>; the result \<open>None\<close> is \<^verbatim>\<open>NaN\<close>. The language fixes the result for a text
  that \<^verbatim>\<open>toISOString\<close> writes, and for the date-only forms \<^verbatim>\<open>YYYY-MM-DD\<close>, \<^verbatim>\<open>YYYY-MM\<close> and
  \<^verbatim>\<open>YYYY\<close>, which stand for the first instant (UTC) of the day, month or year. What
  \<^verbatim>\<open>Date.parse\<close> returns for any other text (other date-time forms, local times, formats
  particular to one engine, out-of-range fields) depends on the JavaScript engine and its
  time zone: it is the parameter \<open>other\<close>.
\<close>

definition Date_parse :: "(string \<Rightarrow> int option) \<Rightarrow> string \<Rightarrow> int option" where
  "Date_parse other s =
     (case written_by_toISOString s of
        Some t \<Rightarrow> Some t
      | None \<Rightarrow>
     (case written_by_toISOString (s @ ''T00:00:00.000Z'') of
        Some t \<Rightarrow> Some t
      | None \<Rightarrow>
     (case written_by_toISOString (s @ ''-01T00:00:00.000Z'') of
        Some t \<Rightarrow> Some t
      | None \<Rightarrow>
     (case written_by_toISOString (s @ ''-01-01T00:00:00.000Z'') of
        Some t \<Rightarrow> Some t
      | None \<Rightarrow> other s))))"

text \<open>
  \<^verbatim>\<open>new Date(v)\<close> for a value \<open>v\<close> of each kind, in an engine whose \<^verbatim>\<open>Date.parse\<close> answers
  \<open>other\<close> on the texts left to it.
\<close>

fun new_Date :: "(string \<Rightarrow> int option) \<Rightarrow> jsval \<Rightarrow> jsval" where
  "new_Date other (VStr s) = VDate (Date_parse other s)"
| "new_Date other (VNum n) = VDate (TimeClip n)"
| "new_Date other (VBool b) = VDate (Some (if b then 1 else 0))"
| "new_Date other VNull = VDate (Some 0)"
| "new_Date other VUndefined = VDate None"
| "new_Date other (VDate tv) = VDate tv"

text \<open>
  The method \<^verbatim>\<open>toISOString\<close> called on a value: it throws a \<^verbatim>\<open>RangeError\<close> on an invalid
  date, and a value that is not a date has no such method.
\<close>

fun Date_toISOString :: "jsval \<Rightarrow> jsval result" where
  "Date_toISOString (VDate (Some t)) = Inr (VStr (toISOString t))"
| "Date_toISOString (VDate None) = Inl RangeError"
| "Date_toISOString v = Inl TypeError"

section \<open>The form shown in the page\<close>

text \<open>
  The accessors run callbacks in the page against the host's client object
  (\<^verbatim>\<open>window.Xrm.Page\<close>). The model holds what those callbacks read and write.

  A control's container chain is whatever \<^verbatim>\<open>getParent()\<close> returns, repeatedly; \<open>None\<close> is a
  falsy result.
\<close>

datatype container = Container (container_visible: bool) (container_parent: "container option")

record option_set_value =
  osv_text :: string
  osv_value :: int

text \<open>A row of a grid: \<^verbatim>\<open>getData().getEntity()\<close> with its id and its entity reference.\<close>

record grid_row =
  row_id :: string
  row_ref_id :: string
  row_ref_entityType :: string

record grid =
  grid_totalRecordCount :: int
  grid_rows :: "grid_row list"

text \<open>
  What a control is decides which methods it has: every control has \<^verbatim>\<open>getVisible\<close>,
  \<^verbatim>\<open>getDisabled\<close>, \<^verbatim>\<open>getLabel\<close>, \<^verbatim>\<open>getParent\<close> and their setters; an option-set control has
  \<^verbatim>\<open>getOptions\<close>; a grid control has \<^verbatim>\<open>getGrid\<close>, \<^verbatim>\<open>getEntityName\<close> and \<^verbatim>\<open>refresh\<close>.
  Calling a method that a control does not have is a \<^verbatim>\<open>TypeError\<close>.
\<close>

datatype control_kind =
    StandardControl
  | OptionSetControl "option_set_value list"
  | GridControl string grid

record control =
  ctl_disabled :: bool
  ctl_visible :: bool
  ctl_label :: string
  ctl_parent :: "container option"
  ctl_kind :: control_kind

text \<open>
  An attribute; \<open>attr_controls\<close> names the controls that \<^verbatim>\<open>attribute.controls.get()\<close>
  returns, which are controls of the form.
\<close>

record attribute =
  attr_type :: string
  attr_value :: jsval
  attr_format :: jsval
  attr_requiredLevel :: string
  attr_isDirty :: bool
  attr_controls :: "string list"

record form =
  attributes :: "string \<rightharpoonup> attribute"
  controls :: "string \<rightharpoonup> control"

text \<open>What the accessors do to the page and the host, in the order they do it.\<close>

datatype event =
    SetValue string jsval
  | FireOnChange string
  | WaitForTimeout int
  | Refresh string
  | Goto string

text \<open>
  The page: the form it shows, its address, the effects so far, and \<open>site\<close>, the form that
  the host shows at each address (read when the page navigates). Two JavaScript engines
  take part, the browser's (callbacks run in the page) and that of the test process (the
  accessors themselves); \<open>page_Date_parse\<close> and \<open>test_Date_parse\<close> are what \<^verbatim>\<open>Date.parse\<close>
  of each returns on the texts that the language leaves to the engine.
\<close>

record page =
  form :: form
  url :: string
  trace :: "event list"
  site :: "string \<Rightarrow> form"
  page_Date_parse :: "string \<Rightarrow> int option"
  test_Date_parse :: "string \<Rightarrow> int option"

text \<open>
  Modelled from the spec: \<^verbatim>\<open>XrmHelper.waitForXrmReady\<close> (\<^verbatim>\<open>framework/core/XrmHelper\<close> is not
  among the sources; the repository's notes show it as a wait for \<^verbatim>\<open>window.Xrm.Page\<close>). The
  spec describes a readiness gate that polls until the host's client object is available.
  A page of this model is one on which it is available, so the gate returns with no effect.
\<close>

definition waitForXrmReady :: "page \<Rightarrow> page" where
  "waitForXrmReady p = p"

text \<open>The host's side of the calls made in the page.\<close>

definition getAttribute :: "page \<Rightarrow> string \<Rightarrow> attribute option" where
  "getAttribute p attrName = attributes (form p) attrName"

definition getControl :: "page \<Rightarrow> string \<Rightarrow> control option" where
  "getControl p name = controls (form p) name"

definition attribute_controls :: "page \<Rightarrow> attribute \<Rightarrow> control list" where
  "attribute_controls p a = List.map_filter (getControl p) (attr_controls a)"

definition update_attribute :: "page \<Rightarrow> string \<Rightarrow> (attribute \<Rightarrow> attribute) \<Rightarrow> page" where
  "update_attribute p attrName f =
     (case getAttribute p attrName of
        None \<Rightarrow> p
      | Some a \<Rightarrow> p\<lparr> form := (form p)\<lparr> attributes := (attributes (form p))(attrName \<mapsto> f a) \<rparr> \<rparr>)"

definition update_control :: "page \<Rightarrow> string \<Rightarrow> (control \<Rightarrow> control) \<Rightarrow> page" where
  "update_control p name f =
     (case getControl p name of
        None \<Rightarrow> p
      | Some c \<Rightarrow> p\<lparr> form := (form p)\<lparr> controls := (controls (form p))(name \<mapsto> f c) \<rparr> \<rparr>)"

definition emit :: "event \<Rightarrow> page \<Rightarrow> page" where
  "emit e p = p\<lparr> trace := trace p @ [e] \<rparr>"

text \<open>
  \<^verbatim>\<open>attribute.setValue(v)\<close> stores \<open>v\<close>; \<^verbatim>\<open>attribute.fireOnChange()\<close> runs the form's change
  handlers, which belong to the host application and are not modelled: the call is recorded
  and changes nothing else.
\<close>

definition host_setValue :: "page \<Rightarrow> string \<Rightarrow> jsval \<Rightarrow> page" where
  "host_setValue p attrName v =
     emit (SetValue attrName v) (update_attribute p attrName (\<lambda>a. a\<lparr> attr_value := v \<rparr>))"

definition host_fireOnChange :: "page \<Rightarrow> string \<Rightarrow> page" where
  "host_fireOnChange p attrName = emit (FireOnChange attrName) p"

definition waitForTimeout :: "page \<Rightarrow> int \<Rightarrow> page" where
  "waitForTimeout p ms = emit (WaitForTimeout ms) p"

definition goto :: "page \<Rightarrow> string \<Rightarrow> page" where
  "goto p address = emit (Goto address) (p\<lparr> form := site p address, url := address \<rparr>)"

section \<open>Attribute\<close>

definition Attribute_getRequiredLevel :: "page \<Rightarrow> string \<Rightarrow> string result \<times> page" where
  "Attribute_getRequiredLevel p attributeName =
     (let p = waitForXrmReady p in
      case getAttribute p attributeName of
        None \<Rightarrow> (Inl (AttributeNotFound attributeName), p)
      | Some attr \<Rightarrow> (Inr (attr_requiredLevel attr), p))"

text \<open>
  \<^verbatim>\<open>getValue\<close>: first the callback run in the page, which returns the pair
  \<^verbatim>\<open>[attributeType, value]\<close>.
\<close>

definition getValue_evaluate :: "page \<Rightarrow> string \<Rightarrow> (string \<times> jsval) result" where
  "getValue_evaluate p attrName =
     (case getAttribute p attrName of
        None \<Rightarrow> Inl (AttributeNotFound attrName)
      | Some attribute \<Rightarrow>
          (let attributeType = attr_type attribute;
               isDate = (attributeType = ''datetime'');
               rawValue = attr_value attribute
           in if isDate \<and> is_Date rawValue then
                (case Date_toISOString rawValue of
                   Inl e \<Rightarrow> Inl e
                 | Inr v \<Rightarrow> Inr (attributeType, v))
              else Inr (attributeType, rawValue)))"

definition Attribute_getValue :: "page \<Rightarrow> string \<Rightarrow> jsval result \<times> page" where
  "Attribute_getValue p attributeName =
     (let p = waitForXrmReady p in
      case getValue_evaluate p attributeName of
        Inl e \<Rightarrow> (Inl e, p)
      | Inr (attributeType, v) \<Rightarrow>
          (case v of
             VStr s \<Rightarrow>
               if attributeType = ''datetime''
               then (Inr (VDate (Date_parse (test_Date_parse p) s)), p)
               else (Inr v, p)
           | _ \<Rightarrow> (Inr v, p)))"

text \<open>
  \<^verbatim>\<open>SetValueSettings\<close>: \<open>None\<close> is a property that is absent. A property present with the
  value \<^verbatim>\<open>undefined\<close> is read as falsy at both places where the settings are used, like an
  absent \<^verbatim>\<open>forceValue\<close> and like a \<^verbatim>\<open>settleTime\<close> that falls back to 500, so it is not told
  apart. The \<^verbatim>\<open>settings\<close> argument is absent, a number, or such an object.
\<close>

record SetValueSettings =
  settleTime :: "int option"
  forceValue :: "bool option"

datatype settings_arg =
    NoSettings
  | SettleNumber int
  | SettingsObject SetValueSettings

definition defaults :: SetValueSettings where
  "defaults = \<lparr> settleTime = Some 500, forceValue = Some False \<rparr>"

text \<open>\<^verbatim>\<open>{ ...a, ...b }\<close>\<close>

definition spread :: "SetValueSettings \<Rightarrow> SetValueSettings \<Rightarrow> SetValueSettings" where
  "spread a b =
     \<lparr> settleTime = (case settleTime b of None \<Rightarrow> settleTime a | Some n \<Rightarrow> Some n),
       forceValue = (case forceValue b of None \<Rightarrow> forceValue a | Some f \<Rightarrow> Some f) \<rparr>"

definition safeSettings :: "settings_arg \<Rightarrow> SetValueSettings" where
  "safeSettings settings =
     spread defaults
       (case settings of
          NoSettings \<Rightarrow> \<lparr> settleTime = None, forceValue = None \<rparr>
        | SettleNumber n \<Rightarrow> \<lparr> settleTime = Some n, forceValue = None \<rparr>
        | SettingsObject s \<Rightarrow> s)"

text \<open>\<^verbatim>\<open>x || d\<close> on an optional number: \<^verbatim>\<open>undefined\<close> and \<open>0\<close> are falsy.\<close>

definition or_default :: "int option \<Rightarrow> int \<Rightarrow> int" where
  "or_default x d = (case x of None \<Rightarrow> d | Some n \<Rightarrow> if n = 0 then d else n)"

text \<open>The test applied to each control of the attribute inside \<^verbatim>\<open>setValue\<close>.\<close>

definition control_editable :: "control \<Rightarrow> bool" where
  "control_editable c \<longleftrightarrow>
     \<not> ctl_disabled c \<and> ctl_visible c
     \<and> (case ctl_parent c of None \<Rightarrow> True | Some par \<Rightarrow> container_visible par)
     \<and> (case ctl_parent c of
          None \<Rightarrow> True
        | Some par \<Rightarrow>
            (case container_parent par of None \<Rightarrow> True | Some gp \<Rightarrow> container_visible gp))"

definition setValue_evaluate ::
  "page \<Rightarrow> string \<Rightarrow> jsval \<Rightarrow> SetValueSettings \<Rightarrow> unit result \<times> page" where
  "setValue_evaluate p attrName val opts =
     (case getAttribute p attrName of
        None \<Rightarrow> (Inl (AttributeNotFound attrName), p)
      | Some attribute \<Rightarrow>
          (let editable = (forceValue opts = Some True
                           \<or> list_ex control_editable (attribute_controls p attribute))
           in if \<not> editable then (Inl (NotEditable attrName), p)
              else
                (let finalValue = (if attr_type attribute = ''datetime''
                                   then new_Date (page_Date_parse p) val else val)
                 in (Inr (), host_fireOnChange (host_setValue p attrName finalValue) attrName))))"

text \<open>
  The argument \<^verbatim>\<open>val: isDate ? (value as Date).toISOString() : value\<close> handed to the
  callback.
\<close>

definition transport_value :: "jsval \<Rightarrow> jsval result" where
  "transport_value v = (let isDate = is_Date v in if isDate then Date_toISOString v else Inr v)"

definition Attribute_setValue ::
  "page \<Rightarrow> string \<Rightarrow> jsval \<Rightarrow> settings_arg \<Rightarrow> unit result \<times> page" where
  "Attribute_setValue p attributeName v settings =
     (let safe = safeSettings settings;
          p = waitForXrmReady p
      in case transport_value v of
           Inl e \<Rightarrow> (Inl e, p)
         | Inr val \<Rightarrow>
             (case setValue_evaluate p attributeName val safe of
                (Inl e, p') \<Rightarrow> (Inl e, p')
              | (Inr u, p') \<Rightarrow> (Inr (), waitForTimeout p' (or_default (settleTime safe) 500))))"

text \<open>
  \<^verbatim>\<open>setValues\<close>: the object \<^verbatim>\<open>values\<close> is the list of its entries in the order in which
  \<^verbatim>\<open>for (const attributeName in values)\<close> visits them.
\<close>

fun Attribute_setValues ::
  "page \<Rightarrow> (string \<times> jsval) list \<Rightarrow> settings_arg \<Rightarrow> unit result \<times> page" where
  "Attribute_setValues p [] settings = (Inr (), p)"
| "Attribute_setValues p ((attributeName, v) # rest) settings =
     (case Attribute_setValue p attributeName v settings of
        (Inl e, p') \<Rightarrow> (Inl e, p')
      | (Inr u, p') \<Rightarrow> Attribute_setValues p' rest settings)"

definition Attribute_getAttributeType :: "page \<Rightarrow> string \<Rightarrow> string result \<times> page" where
  "Attribute_getAttributeType p attributeName =
     (let p = waitForXrmReady p in
      case getAttribute p attributeName of
        None \<Rightarrow> (Inl (AttributeNotFound attributeName), p)
      | Some attr \<Rightarrow> (Inr (attr_type attr), p))"

text \<open>\<^verbatim>\<open>getFormattedValue\<close> returns what the attribute's \<^verbatim>\<open>getFormat()\<close> returns.\<close>

definition Attribute_getFormattedValue :: "page \<Rightarrow> string \<Rightarrow> jsval result \<times> page" where
  "Attribute_getFormattedValue p attributeName =
     (let p = waitForXrmReady p in
      case getAttribute p attributeName of
        None \<Rightarrow> (Inl (AttributeNotFound attributeName), p)
      | Some attribute \<Rightarrow> (Inr (attr_format attribute), p))"

definition Attribute_isDirty :: "page \<Rightarrow> string \<Rightarrow> bool result \<times> page" where
  "Attribute_isDirty p attributeName =
     (let p = waitForXrmReady p in
      case getAttribute p attributeName of
        None \<Rightarrow> (Inl (AttributeNotFound attributeName), p)
      | Some attr \<Rightarrow> (Inr (attr_isDirty attr), p))"

definition Attribute_setRequiredLevel :: "page \<Rightarrow> string \<Rightarrow> string \<Rightarrow> unit result \<times> page" where
  "Attribute_setRequiredLevel p attributeName requirementLevel =
     (let p = waitForXrmReady p in
      case getAttribute p attributeName of
        None \<Rightarrow> (Inl (AttributeNotFound attributeName), p)
      | Some attr \<Rightarrow>
          (Inr (), update_attribute p attributeName (\<lambda>a. a\<lparr> attr_requiredLevel := requirementLevel \<rparr>)))"

section \<open>Control\<close>

record ControlState =
  isVisible :: bool
  isDisabled :: bool

definition Control_get :: "page \<Rightarrow> string \<Rightarrow> ControlState result \<times> page" where
  "Control_get p controlName =
     (let p = waitForXrmReady p in
      case getControl p controlName of
        None \<Rightarrow> (Inl (ControlNotFound controlName), p)
      | Some control \<Rightarrow>
          (Inr \<lparr> isVisible =
                   (ctl_visible control
                    \<and> (case ctl_parent control of
                         None \<Rightarrow> True
                       | Some par \<Rightarrow> container_visible par)
                    \<and> (case ctl_parent control of
                         None \<Rightarrow> True
                       | Some par \<Rightarrow>
                           (case container_parent par of
                              None \<Rightarrow> True
                            | Some gp \<Rightarrow> container_visible gp))),
                 isDisabled = ctl_disabled control \<rparr>, p))"

definition Control_getOptions :: "page \<Rightarrow> string \<Rightarrow> option_set_value list result \<times> page" where
  "Control_getOptions p controlName =
     (let p = waitForXrmReady p in
      case getControl p controlName of
        None \<Rightarrow> (Inl (ControlNotFound controlName), p)
      | Some control \<Rightarrow>
          (case ctl_kind control of
             OptionSetControl opts \<Rightarrow> (Inr opts, p)
           | _ \<Rightarrow> (Inl TypeError, p)))"

definition Control_setVisible :: "page \<Rightarrow> string \<Rightarrow> bool \<Rightarrow> unit result \<times> page" where
  "Control_setVisible p controlName visible =
     (let p = waitForXrmReady p in
      case getControl p controlName of
        None \<Rightarrow> (Inl (ControlNotFound controlName), p)
      | Some control \<Rightarrow>
          (Inr (), update_control p controlName (\<lambda>c. c\<lparr> ctl_visible := visible \<rparr>)))"

definition Control_setDisabled :: "page \<Rightarrow> string \<Rightarrow> bool \<Rightarrow> unit result \<times> page" where
  "Control_setDisabled p controlName disabled =
     (let p = waitForXrmReady p in
      case getControl p controlName of
        None \<Rightarrow> (Inl (ControlNotFound controlName), p)
      | Some control \<Rightarrow>
          (Inr (), update_control p controlName (\<lambda>c. c\<lparr> ctl_disabled := disabled \<rparr>)))"

definition Control_getLabel :: "page \<Rightarrow> string \<Rightarrow> string result \<times> page" where
  "Control_getLabel p controlName =
     (let p = waitForXrmReady p in
      case getControl p controlName of
        None \<Rightarrow> (Inl (ControlNotFound controlName), p)
      | Some control \<Rightarrow> (Inr (ctl_label control), p))"

definition Control_setLabel :: "page \<Rightarrow> string \<Rightarrow> string \<Rightarrow> unit result \<times> page" where
  "Control_setLabel p controlName label =
     (let p = waitForXrmReady p in
      case getControl p controlName of
        None \<Rightarrow> (Inl (ControlNotFound controlName), p)
      | Some control \<Rightarrow>
          (Inr (), update_control p controlName (\<lambda>c. c\<lparr> ctl_label := label \<rparr>)))"

section \<open>SubGrid\<close>

text \<open>
  The results typed \<^verbatim>\<open>number | undefined\<close> and \<^verbatim>\<open>string | undefined\<close> are options, with
  \<open>None\<close> for \<^verbatim>\<open>undefined\<close>.
\<close>

definition SubGrid_getRecordCount :: "page \<Rightarrow> string \<Rightarrow> int option result \<times> page" where
  "SubGrid_getRecordCount p subgridName =
     (let p = waitForXrmReady p in
      case getControl p subgridName of
        None \<Rightarrow> (Inr None, p)
      | Some control \<Rightarrow>
          (case ctl_kind control of
             GridControl entityName g \<Rightarrow> (Inr (Some (grid_totalRecordCount g)), p)
           | _ \<Rightarrow> (Inl TypeError, p)))"

definition SubGrid_getVisibleRecordCount :: "page \<Rightarrow> string \<Rightarrow> nat option result \<times> page" where
  "SubGrid_getVisibleRecordCount p subgridName =
     (let p = waitForXrmReady p in
      case getControl p subgridName of
        None \<Rightarrow> (Inr None, p)
      | Some control \<Rightarrow>
          (case ctl_kind control of
             GridControl entityName g \<Rightarrow> (Inr (Some (length (grid_rows g))), p)
           | _ \<Rightarrow> (Inl TypeError, p)))"

text \<open>\<^verbatim>\<open>s.split(sep)[0]\<close> for a separator that is not empty.\<close>

fun split_first :: "string \<Rightarrow> string \<Rightarrow> string" where
  "split_first sep [] = []"
| "split_first sep (ch # cs) =
     (if take (length sep) (ch # cs) = sep then [] else ch # split_first sep cs)"

record RecordReference =
  ref_id :: string
  ref_entityType :: string

text \<open>
  \<^verbatim>\<open>openNthRecord\<close>; \<open>recordNumber\<close> is a zero-based index (negative and fractional
  numbers are outside the model). The callback run in the page comes first.
\<close>

definition openNthRecord_evaluate :: "page \<Rightarrow> string \<Rightarrow> nat \<Rightarrow> RecordReference result" where
  "openNthRecord_evaluate p name position =
     (case getControl p name of
        None \<Rightarrow> Inl (SubgridNotFound name)
      | Some control \<Rightarrow>
          (case ctl_kind control of
             GridControl entityName g \<Rightarrow>
               (let rows = grid_rows g in
                if position \<ge> length rows then Inl (IndexOutOfRange position (length rows))
                else Inr \<lparr> ref_id = row_ref_id (rows ! position),
                           ref_entityType = row_ref_entityType (rows ! position) \<rparr>)
           | _ \<Rightarrow> Inl TypeError))"

definition SubGrid_openNthRecord ::
  "page \<Rightarrow> string \<Rightarrow> nat \<Rightarrow> RecordReference result \<times> page" where
  "SubGrid_openNthRecord p subgridName recordNumber =
     (let p = waitForXrmReady p in
      case openNthRecord_evaluate p subgridName recordNumber of
        Inl e \<Rightarrow> (Inl e, p)
      | Inr recordReference \<Rightarrow>
          (let entityFormUrl = split_first ''/main.aspx'' (url p) @ ''/main.aspx?etn=''
                 @ ref_entityType recordReference @ ''&id='' @ ref_id recordReference
                 @ ''&pagetype=entityrecord''
           in (Inr recordReference, waitForXrmReady (goto p entityFormUrl))))"

definition SubGrid_getEntityName :: "page \<Rightarrow> string \<Rightarrow> string option result \<times> page" where
  "SubGrid_getEntityName p subgridName =
     (let p = waitForXrmReady p in
      case getControl p subgridName of
        None \<Rightarrow> (Inr None, p)
      | Some control \<Rightarrow>
          (case ctl_kind control of
             GridControl entityName g \<Rightarrow> (Inr (Some entityName), p)
           | _ \<Rightarrow> (Inl TypeError, p)))"

text \<open>
  \<^verbatim>\<open>refresh\<close> asks the host to reload the grid; the call is recorded, and what the host
  loads is not modelled.
\<close>

definition SubGrid_refresh :: "page \<Rightarrow> string \<Rightarrow> unit result \<times> page" where
  "SubGrid_refresh p subgridName =
     (let p = waitForXrmReady p in
      case getControl p subgridName of
        None \<Rightarrow> (Inl (SubgridNotFound subgridName), p)
      | Some control \<Rightarrow>
          (case ctl_kind control of
             GridControl entityName g \<Rightarrow> (Inr (), emit (Refresh subgridName) p)
           | _ \<Rightarrow> (Inl TypeError, p)))"

text \<open>
  \<^verbatim>\<open>rawId.replace(/[{}]/g, '').toLowerCase()\<close>. Record ids are GUIDs written in ASCII, and
  \<open>toLowerCase\<close> maps the letters A to Z; other characters are kept.
\<close>

definition toLowerCase_char :: "char \<Rightarrow> char" where
  "toLowerCase_char ch =
     (case map_of (zip ''ABCDEFGHIJKLMNOPQRSTUVWXYZ'' ''abcdefghijklmnopqrstuvwxyz'') ch of
        None \<Rightarrow> ch
      | Some l \<Rightarrow> l)"

definition toLowerCase :: "string \<Rightarrow> string" where
  "toLowerCase s = map toLowerCase_char s"

definition normalizedId :: "string \<Rightarrow> string" where
  "normalizedId rawId = toLowerCase (filter (\<lambda>ch. ch \<noteq> CHR ''{'' \<and> ch \<noteq> CHR ''}'') rawId)"

text \<open>
  The loop \<^verbatim>\<open>for (let i = 0; i < rows.getLength(); i++)\<close> of \<^verbatim>\<open>getRecordIds\<close>, over the
  rows still to be visited, with the array \<^verbatim>\<open>ids\<close> built so far.
\<close>

fun getRecordIds_loop :: "grid_row list \<Rightarrow> string list \<Rightarrow> string list" where
  "getRecordIds_loop [] ids = ids"
| "getRecordIds_loop (row # rows) ids = getRecordIds_loop rows (ids @ [normalizedId (row_id row)])"

definition SubGrid_getRecordIds :: "page \<Rightarrow> string \<Rightarrow> string list result \<times> page" where
  "SubGrid_getRecordIds p subgridName =
     (let p = waitForXrmReady p in
      case getControl p subgridName of
        None \<Rightarrow> (Inr [], p)
      | Some control \<Rightarrow>
          (case ctl_kind control of
             GridControl entityName g \<Rightarrow> (Inr (getRecordIds_loop (grid_rows g) []), p)
           | _ \<Rightarrow> (Inl TypeError, p)))"

definition SubGrid_isVisible :: "page \<Rightarrow> string \<Rightarrow> bool result \<times> page" where
  "SubGrid_isVisible p subgridName =
     (let p = waitForXrmReady p in
      case getControl p subgridName of
        None \<Rightarrow> (Inr False, p)
      | Some control \<Rightarrow> (Inr (ctl_visible control), p))"

section \<open>Test-data factories\<close>

text \<open>
  \<^verbatim>\<open>AccountFactory\<close> and \<^verbatim>\<open>ContactFactory\<close> are pure apart from one read of the clock
  (\<^verbatim>\<open>Date.now()\<close>) per \<^verbatim>\<open>create\<close> call. The clock value is a parameter of the model. An
  optional property of a TypeScript interface is an \<open>option\<close> field: \<open>None\<close> is the property
  being absent (reading it gives \<^verbatim>\<open>undefined\<close>). JavaScript numbers are modelled by \<open>int\<close>;
  fractional numbers are outside the model.
\<close>

text \<open>Truthiness of an optional string: \<^verbatim>\<open>undefined\<close> and the empty string are falsy.\<close>

fun truthy_str :: "string option \<Rightarrow> bool" where
  "truthy_str None = False"
| "truthy_str (Some s) = (s \<noteq> [])"

subsection \<open>AccountFactory\<close>

text \<open>
  \<^verbatim>\<open>AccountData\<close>; the two binding keys \<^verbatim>\<open>'parentaccountid@odata.bind'\<close> and
  \<^verbatim>\<open>'primarycontactid@odata.bind'\<close> are the fields \<open>parentaccountid_odata_bind\<close> and
  \<open>primarycontactid_odata_bind\<close>.
\<close>

record AccountData =
  name :: string
  telephone1 :: "string option"
  telephone2 :: "string option"
  emailaddress1 :: "string option"
  websiteurl :: "string option"
  address1_line1 :: "string option"
  address1_city :: "string option"
  address1_stateorprovince :: "string option"
  address1_postalcode :: "string option"
  address1_country :: "string option"
  industrycode :: "int option"
  revenue :: "int option"
  numberofemployees :: "int option"
  description :: "string option"
  parentaccountid_odata_bind :: "string option"
  primarycontactid_odata_bind :: "string option"

text \<open>\<^verbatim>\<open>CreateAccountOptions\<close>; every field carries the prefix \<open>opt_\<close>.\<close>

record CreateAccountOptions =
  opt_name :: "string option"
  opt_phone :: "string option"
  opt_secondaryPhone :: "string option"
  opt_email :: "string option"
  opt_website :: "string option"
  opt_addressLine1 :: "string option"
  opt_city :: "string option"
  opt_state :: "string option"
  opt_postalCode :: "string option"
  opt_country :: "string option"
  opt_industry :: "int option"
  opt_revenue :: "int option"
  opt_employees :: "int option"
  opt_description :: "string option"
  opt_parentAccountId :: "string option"
  opt_primaryContactId :: "string option"

text \<open>\<^verbatim>\<open>if (options.x) data.y = options.x\<close>: the field is set only for a truthy string.\<close>

definition map_truthy :: "string option \<Rightarrow> string option" where
  "map_truthy x = (if truthy_str x then x else None)"

text \<open>\<^verbatim>\<open>if (options.xId) data['..@odata.bind'] = `/coll(${options.xId})`\<close>\<close>

definition odata_bind :: "string \<Rightarrow> string option \<Rightarrow> string option" where
  "odata_bind coll x =
     (if truthy_str x then Some (''/'' @ coll @ ''('' @ the x @ '')'') else None)"

text \<open>\<^verbatim>\<open>AccountFactory.create(options)\<close>, with \<open>timestamp\<close> the value of \<^verbatim>\<open>Date.now()\<close>.\<close>

definition AccountFactory_create :: "CreateAccountOptions \<Rightarrow> nat \<Rightarrow> AccountData" where
  "AccountFactory_create options timestamp =
     \<lparr> name = (if truthy_str (opt_name options)
                then the (opt_name options) @ '' '' @ show_nat timestamp
                else ''Test Account '' @ show_nat timestamp),
       telephone1 = map_truthy (opt_phone options),
       telephone2 = map_truthy (opt_secondaryPhone options),
       emailaddress1 = map_truthy (opt_email options),
       websiteurl = map_truthy (opt_website options),
       address1_line1 = map_truthy (opt_addressLine1 options),
       address1_city = map_truthy (opt_city options),
       address1_stateorprovince = map_truthy (opt_state options),
       address1_postalcode = map_truthy (opt_postalCode options),
       address1_country = map_truthy (opt_country options),
       industrycode = opt_industry options,
       revenue = opt_revenue options,
       numberofemployees = opt_employees options,
       description = map_truthy (opt_description options),
       parentaccountid_odata_bind = odata_bind ''accounts'' (opt_parentAccountId options),
       primarycontactid_odata_bind = odata_bind ''contacts'' (opt_primaryContactId options) \<rparr>"

text \<open>
  \<^verbatim>\<open>AccountFactory.createBulk(count, options)\<close>. The loop
  \<^verbatim>\<open>for (let i = 0; i < count; i++)\<close> is \<open>createBulk_loop\<close>, the object
  \<^verbatim>\<open>{ ...options, name: ... }\<close> built in its body is \<open>accountOptions\<close>, and \<open>now k\<close> is
  what \<^verbatim>\<open>Date.now()\<close> returns during the \<open>k\<close>-th iteration (counted from 0).
\<close>

definition accountOptions :: "CreateAccountOptions \<Rightarrow> int \<Rightarrow> CreateAccountOptions" where
  "accountOptions options i =
     options\<lparr> opt_name :=
       Some (if truthy_str (opt_name options)
             then the (opt_name options) @ '' '' @ show_int (i + 1)
             else ''Bulk Test Account '' @ show_int (i + 1)) \<rparr>"

function createBulk_loop ::
  "int \<Rightarrow> int \<Rightarrow> CreateAccountOptions \<Rightarrow> (nat \<Rightarrow> nat) \<Rightarrow> AccountData list \<Rightarrow> AccountData list" where
  "createBulk_loop i count options now accounts =
     (if i < count then
        createBulk_loop (i + 1) count options now
          (accounts @ [AccountFactory_create (accountOptions options i) (now (nat i))])
      else accounts)"
  by pat_completeness auto
termination
  by (relation "measure (\<lambda>(i, count, options, now, accounts). nat (count - i))") auto

declare createBulk_loop.simps [simp del]

definition AccountFactory_createBulk ::
  "int \<Rightarrow> CreateAccountOptions \<Rightarrow> (nat \<Rightarrow> nat) \<Rightarrow> AccountData list" where
  "AccountFactory_createBulk count options now = createBulk_loop 0 count options now []"

subsection \<open>ContactFactory\<close>

text \<open>
  \<^verbatim>\<open>ContactData\<close> and \<^verbatim>\<open>CreateContactOptions\<close>, with the prefixes \<open>c_\<close> and \<open>copt_\<close>
  (several field names coincide with those of the account records).
\<close>

record ContactData =
  c_firstname :: string
  c_lastname :: string
  c_emailaddress1 :: "string option"
  c_telephone1 :: "string option"
  c_mobilephone :: "string option"
  c_jobtitle :: "string option"
  c_description :: "string option"
  c_preferredcontactmethodcode :: "int option"
  c_parentcustomerid_account_odata_bind :: "string option"

record CreateContactOptions =
  copt_firstname :: "string option"
  copt_lastname :: "string option"
  copt_email :: "string option"
  copt_phone :: "string option"
  copt_mobile :: "string option"
  copt_jobTitle :: "string option"
  copt_description :: "string option"
  copt_preferredContactMethod :: "int option"
  copt_accountId :: "string option"

definition ContactFactory_create :: "CreateContactOptions \<Rightarrow> nat \<Rightarrow> ContactData" where
  "ContactFactory_create options timestamp =
     \<lparr> c_firstname = (if truthy_str (copt_firstname options)
                       then the (copt_firstname options) else ''Test''),
       c_lastname = (if truthy_str (copt_lastname options)
                      then the (copt_lastname options) @ '' '' @ show_nat timestamp
                      else ''Contact '' @ show_nat timestamp),
       c_emailaddress1 = map_truthy (copt_email options),
       c_telephone1 = map_truthy (copt_phone options),
       c_mobilephone = map_truthy (copt_mobile options),
       c_jobtitle = map_truthy (copt_jobTitle options),
       c_description = map_truthy (copt_description options),
       c_preferredcontactmethodcode = copt_preferredContactMethod options,
       c_parentcustomerid_account_odata_bind = odata_bind ''accounts'' (copt_accountId options) \<rparr>"

section \<open>The editability rule in the words of the specification\<close>

text \<open>
  The specification asks for a control that is not disabled, is visible, and has all of its
  ancestor containers visible. \<open>spec_control_editable\<close> follows these words: it walks the
  whole container chain, however long. It is compared below with \<open>control_editable\<close>, the
  test that \<^verbatim>\<open>setValue\<close> applies.
\<close>

fun all_visible :: "container \<Rightarrow> bool" where
  "all_visible (Container v par) = (v \<and> (case par of None \<Rightarrow> True | Some c \<Rightarrow> all_visible c))"

definition spec_control_editable :: "control \<Rightarrow> bool" where
  "spec_control_editable c \<longleftrightarrow>
     \<not> ctl_disabled c \<and> ctl_visible c
     \<and> (case ctl_parent c of None \<Rightarrow> True | Some par \<Rightarrow> all_visible par)"

text \<open>A control with at most two containers above it: a section, and the tab of the section.\<close>

definition at_most_two_containers :: "control \<Rightarrow> bool" where
  "at_most_two_containers c \<longleftrightarrow>
     (case ctl_parent c of
        None \<Rightarrow> True
      | Some par \<Rightarrow>
          (case container_parent par of None \<Rightarrow> True | Some gp \<Rightarrow> container_parent gp = None))"

text \<open>The names written by the \<^verbatim>\<open>attribute.setValue\<close> calls of a trace, in order.\<close>

fun written :: "event list \<Rightarrow> string list" where
  "written [] = []"
| "written (SetValue attrName v # es) = attrName # written es"
| "written (e # es) = written es"

section \<open>A sample page\<close>

text \<open>
  An account form used to run the operations on concrete data. Its fields sit in a section
  of a tab; \<open>fax\<close> sits in a section of a hidden tab; \<open>telephone1\<close> sits three containers
  deep, below a hidden outermost container; \<open>createdon\<close> is read-only. The grid
  \<open>Contacts\<close> lists two related records. Both engines of the sample read no text beyond
  the forms that the language fixes.
\<close>

definition tab_general :: container where
  "tab_general = Container True None"

definition section_summary :: container where
  "section_summary = Container True (Some tab_general)"

definition tab_hidden :: container where
  "tab_hidden = Container False None"

definition section_details :: container where
  "section_details = Container True (Some tab_hidden)"

definition section_nested :: container where
  "section_nested = Container True (Some (Container True (Some (Container False None))))"

definition field_control :: "bool \<Rightarrow> container \<Rightarrow> control" where
  "field_control disabled par =
     \<lparr> ctl_disabled = disabled, ctl_visible = True, ctl_label = [],
       ctl_parent = Some par, ctl_kind = StandardControl \<rparr>"

definition contacts_grid :: grid where
  "contacts_grid =
     \<lparr> grid_totalRecordCount = 2,
       grid_rows =
         [\<lparr> row_id = ''{0A1B2C3D-0000-4000-8000-00000000000A}'',
            row_ref_id = ''{0A1B2C3D-0000-4000-8000-00000000000A}'',
            row_ref_entityType = ''contact'' \<rparr>,
          \<lparr> row_id = ''{0A1B2C3D-0000-4000-8000-00000000000B}'',
            row_ref_id = ''{0A1B2C3D-0000-4000-8000-00000000000B}'',
            row_ref_entityType = ''contact'' \<rparr>] \<rparr>"

definition sample_controls :: "string \<rightharpoonup> control" where
  "sample_controls =
     map_of
       [(''name'', field_control False section_summary),
        (''emailaddress1'', field_control False section_summary),
        (''createdon'', field_control True section_summary),
        (''lastonholdtime'', field_control False section_summary),
        (''fax'', field_control False section_details),
        (''telephone1'', field_control False section_nested),
        (''Contacts'',
           \<lparr> ctl_disabled = False, ctl_visible = True, ctl_label = ''Contacts'',
             ctl_parent = Some section_summary,
             ctl_kind = GridControl ''contact'' contacts_grid \<rparr>)]"

definition text_attribute :: "string \<Rightarrow> string \<Rightarrow> string \<Rightarrow> attribute" where
  "text_attribute fmt v controlName =
     \<lparr> attr_type = ''string'', attr_value = VStr v, attr_format = VStr fmt,
       attr_requiredLevel = ''none'', attr_isDirty = False, attr_controls = [controlName] \<rparr>"

definition datetime_attribute :: "jsval \<Rightarrow> string \<Rightarrow> attribute" where
  "datetime_attribute v controlName =
     \<lparr> attr_type = ''datetime'', attr_value = v, attr_format = VStr ''datetime'',
       attr_requiredLevel = ''none'', attr_isDirty = False, attr_controls = [controlName] \<rparr>"

definition sample_attributes :: "string \<rightharpoonup> attribute" where
  "sample_attributes =
     map_of
       [(''name'', text_attribute ''text'' ''Contoso'' ''name''),
        (''emailaddress1'', text_attribute ''email'' ''info@contoso.com'' ''emailaddress1''),
        (''createdon'', datetime_attribute (VDate (Some 1700000000000)) ''createdon''),
        (''lastonholdtime'', datetime_attribute VNull ''lastonholdtime''),
        (''fax'', text_attribute ''text'' [] ''fax''),
        (''telephone1'', text_attribute ''phone'' ''+1-555-0100'' ''telephone1'')]"

definition sample_page :: page where
  "sample_page =
     \<lparr> form = \<lparr> attributes = sample_attributes, controls = sample_controls \<rparr>,
       url = ''https://contoso.crm.dynamics.com/main.aspx?appid=1'',
       trace = [],
       site = (\<lambda>address. \<lparr> attributes = Map.empty, controls = Map.empty \<rparr>),
       page_Date_parse = (\<lambda>s. None),
       test_Date_parse = (\<lambda>s. None) \<rparr>"

text \<open>
  Factory options: the default \<^verbatim>\<open>{}\<close> for both factories, and the options of the bulk
  example in the demo test.
\<close>

definition no_account_options :: CreateAccountOptions where
  "no_account_options =
     \<lparr> opt_name = None, opt_phone = None, opt_secondaryPhone = None, opt_email = None,
       opt_website = None, opt_addressLine1 = None, opt_city = None, opt_state = None,
       opt_postalCode = None, opt_country = None, opt_industry = None, opt_revenue = None,
       opt_employees = None, opt_description = None, opt_parentAccountId = None,
       opt_primaryContactId = None \<rparr>"

definition no_contact_options :: CreateContactOptions where
  "no_contact_options =
     \<lparr> copt_firstname = None, copt_lastname = None, copt_email = None, copt_phone = None,
       copt_mobile = None, copt_jobTitle = None, copt_description = None,
       copt_preferredContactMethod = None, copt_accountId = None \<rparr>"

definition bulk_options :: CreateAccountOptions where
  "bulk_options = no_account_options\<lparr> opt_name := Some ''Bulk Test Account'', opt_city := Some ''Portland'' \<rparr>"

section \<open>Decimal text: lemmas\<close>

lemma digit_char_neq_space: "d < 10 \<Longrightarrow> digit_char d \<noteq> CHR '' ''"
  unfolding digit_char_def
  by (cases d rule: nat.exhaust; simp add: nth_Cons' split: if_splits)

lemma digit_char_inj: "a < 10 \<Longrightarrow> b < 10 \<Longrightarrow> digit_char a = digit_char b \<Longrightarrow> a = b"
  unfolding digit_char_def
  by (simp add: nth_Cons' split: if_splits)

lemma show_nat_no_space: "CHR '' '' \<notin> set (show_nat n)"
proof (induction n rule: show_nat.induct)
  case (1 n)
  show ?case
  proof (cases "n < 10")
    case True
    then show ?thesis
      using digit_char_neq_space [of n] by (auto simp: show_nat.simps [of n])
  next
    case False
    then show ?thesis using 1 digit_char_neq_space [of "n mod 10"]
      by (auto simp: show_nat.simps [of n])
  qed
qed

lemma show_nat_nonempty [simp]: "show_nat n \<noteq> []" "[] \<noteq> show_nat n"
  by (subst show_nat.simps, simp)+

lemma show_nat_inj: "show_nat a = show_nat b \<Longrightarrow> a = b"
proof (induction a arbitrary: b rule: show_nat.induct)
  case (1 n)
  show ?case
  proof (cases "n < 10")
    case True
    note n = this
    show ?thesis
    proof (cases "b < 10")
      case True
      with n 1(2) show ?thesis
        by (simp add: show_nat.simps [of n] show_nat.simps [of b] digit_char_inj)
    next
      case False
      with n 1(2) show ?thesis
        by (simp add: show_nat.simps [of n] show_nat.simps [of b])
    qed
  next
    case False
    note n = this
    show ?thesis
    proof (cases "b < 10")
      case True
      with n 1(2) show ?thesis
        by (simp add: show_nat.simps [of n] show_nat.simps [of b])
    next
      case False
      with n 1(2) have e: "show_nat (n div 10) = show_nat (b div 10)"
        and d: "digit_char (n mod 10) = digit_char (b mod 10)"
        by (simp_all add: show_nat.simps [of n] show_nat.simps [of b])
      from 1(1) [OF n e] have "n div 10 = b div 10" .
      moreover from d have "n mod 10 = b mod 10" by (simp add: digit_char_inj)
      ultimately show ?thesis by (metis div_mult_mod_eq)
    qed
  qed
qed

lemma show_int_nonneg: "0 \<le> i \<Longrightarrow> show_int i = show_nat (nat i)"
  by (simp add: show_int_def)

lemma space_split_unique:
  assumes "CHR '' '' \<notin> set xs" "CHR '' '' \<notin> set ys"
    and "xs @ CHR '' '' # r = ys @ CHR '' '' # r'"
  shows "xs = ys"
proof -
  have "takeWhile (\<lambda>c. c \<noteq> CHR '' '') (xs @ CHR '' '' # r) = xs"
    using assms(1) by (subst takeWhile_append2) auto
  moreover have "takeWhile (\<lambda>c. c \<noteq> CHR '' '') (ys @ CHR '' '' # r') = ys"
    using assms(2) by (subst takeWhile_append2) auto
  ultimately show ?thesis using assms(3) by simp
qed

lemma createBulk_loop_eq:
  "createBulk_loop i count options now accounts =
     accounts @ map (\<lambda>k. AccountFactory_create (accountOptions options k) (now (nat k))) [i..count - 1]"
proof (induction i count options now accounts rule: createBulk_loop.induct)
  case (1 i count options now accounts)
  show ?case
  proof (cases "i < count")
    case True
    then have u: "[i..count - 1] = i # [i + 1..count - 1]"
      by (simp add: upto_rec1)
    show ?thesis
      using True 1 [OF True]
      by (subst createBulk_loop.simps) (simp add: u)
  next
    case False
    then show ?thesis by (subst createBulk_loop.simps) simp
  qed
qed

lemma bulk_name:
  "0 \<le> k \<Longrightarrow> name (AccountFactory_create (accountOptions options k) t) =
     (if truthy_str (opt_name options) then the (opt_name options) else ''Bulk Test Account'')
       @ CHR '' '' # show_nat (nat (k + 1)) @ CHR '' '' # show_nat t"
  by (simp add: AccountFactory_create_def accountOptions_def show_int_nonneg)

lemma bulk_name_inj:
  assumes "0 \<le> a" "0 \<le> b"
    and "name (AccountFactory_create (accountOptions options a) s) =
         name (AccountFactory_create (accountOptions options b) t)"
  shows "a = b"
proof -
  from assms have "show_nat (nat (a + 1)) @ CHR '' '' # show_nat s =
      show_nat (nat (b + 1)) @ CHR '' '' # show_nat t"
    by (simp add: bulk_name)
  then have "show_nat (nat (a + 1)) = show_nat (nat (b + 1))"
    by (rule space_split_unique [OF show_nat_no_space show_nat_no_space])
  then have "nat (a + 1) = nat (b + 1)" by (rule show_nat_inj)
  with assms(1,2) show ?thesis by simp
qed

lemma bulk_other_fields:
  "(AccountFactory_create (accountOptions options k) s)\<lparr>name := x\<rparr> =
   (AccountFactory_create options t)\<lparr>name := x\<rparr>"
  by (simp add: AccountFactory_create_def accountOptions_def)

section \<open>Dates: writing and reading the ISO form\<close>

lemma digit_val_digit_char: "d < 10 \<Longrightarrow> digit_val (digit_char d) = Some d"
proof -
  assume "d < 10"
  then have "d \<in> {0, 1, 2, 3, 4, 5, 6, 7, 8, 9}" by auto
  then show ?thesis
    by (auto simp: digit_val_def digit_char_def)
qed

lemma digit_char_not_sign: "d < 10 \<Longrightarrow> digit_char d \<noteq> CHR ''+'' \<and> digit_char d \<noteq> CHR ''-''"
proof -
  assume "d < 10"
  then have "d \<in> {0, 1, 2, 3, 4, 5, 6, 7, 8, 9}" by auto
  then show ?thesis
    by (auto simp: digit_char_def)
qed

lemma length_pad_digits [simp]: "length (pad_digits k n) = k"
  by (induction k arbitrary: n) simp_all

lemma parse_digits_append:
  "parse_digits acc (xs @ ys) =
     (case parse_digits acc xs of None \<Rightarrow> None | Some a \<Rightarrow> parse_digits a ys)"
  by (induction xs arbitrary: acc) (simp_all split: option.splits)

lemma parse_pad_digits:
  "n < 10 ^ k \<Longrightarrow> parse_digits acc (pad_digits k n) = Some (acc * 10 ^ k + n)"
proof (induction k arbitrary: n acc)
  case 0
  then show ?case by simp
next
  case (Suc k)
  from Suc.prems have "n div 10 < 10 ^ k" by (simp add: less_mult_imp_div_less mult.commute)
  then have "parse_digits acc (pad_digits k (n div 10)) = Some (acc * 10 ^ k + n div 10)"
    by (rule Suc.IH)
  then show ?case
    by (simp add: parse_digits_append digit_val_digit_char algebra_simps)
qed

lemma pad_digits_not_sign:
  "ch \<in> set (pad_digits k n) \<Longrightarrow> ch \<noteq> CHR ''+'' \<and> ch \<noteq> CHR ''-''"
proof (induction k arbitrary: n)
  case 0
  then show ?case by simp
next
  case (Suc k)
  then show ?case using digit_char_not_sign [of "n mod 10"] by auto
qed

lemma civil_roundtrip:
  fixes z :: int
  assumes "civil_from_days z = (y, m, d)"
  shows "days_from_civil y m d = z \<and> 1 \<le> m \<and> m \<le> 12 \<and> 1 \<le> d \<and> d \<le> 31
         \<and> 400 * ((z + 719468) div 146097) \<le> y \<and> y \<le> 400 * ((z + 719468) div 146097) + 400"
proof -
  define z' where "z' = z + 719468"
  define era where "era = z' div 146097"
  define doe where "doe = z' mod 146097"
  define c where "c = min 3 (doe div 36524)"
  define doc where "doc = doe - 36524 * c"
  define q where "q = doc div 1461"
  define doq where "doq = doc mod 1461"
  define yq where "yq = min 3 (doq div 365)"
  define doy where "doy = doq - 365 * yq"
  define yoe where "yoe = 100 * c + 4 * q + yq"
  define mp where "mp = (5 * doy + 2) div 153"
  have z': "z' = 146097 * era + doe" by (simp add: era_def doe_def)
  have doe: "0 \<le> doe" "doe < 146097" by (simp_all add: doe_def)
  have c: "0 \<le> c" "c \<le> 3" using doe by (simp_all add: c_def)
  have doc: "0 \<le> doc" "doc \<le> 36524" using doe unfolding doc_def c_def by arith+
  have docq: "doc = 1461 * q + doq" by (simp add: q_def doq_def)
  have doq: "0 \<le> doq" "doq < 1461" by (simp_all add: doq_def)
  have q: "0 \<le> q" "q \<le> 24" using doc unfolding q_def by arith+
  have yq: "0 \<le> yq" "yq \<le> 3" using doq by (simp_all add: yq_def)
  have doy: "0 \<le> doy" "doy \<le> 365" using doq unfolding doy_def yq_def by arith+
  have yoe: "0 \<le> yoe" "yoe < 400" using c q yq by (simp_all add: yoe_def)
  have mp: "0 \<le> mp" "mp \<le> 11" using doy unfolding mp_def by arith+
  have d_lo: "0 \<le> doy - (153 * mp + 2) div 5" using doy unfolding mp_def by arith
  have d_hi: "doy - (153 * mp + 2) div 5 \<le> 30" using doy unfolding mp_def by arith
  define m' where "m' = (if mp < 10 then mp + 3 else mp - 9)"
  have m': "1 \<le> m'" "m' \<le> 12" using mp by (simp_all add: m'_def)
  have mp_back: "(if m' > 2 then m' - 3 else m' + 9) = mp" using mp by (simp add: m'_def)
  have ymd: "y = yoe + 400 * era + (if m' \<le> 2 then 1 else 0)" "m = m'"
    "d = doy - (153 * mp + 2) div 5 + 1"
    using assms
    unfolding civil_from_days_def Let_def z'_def [symmetric] era_def [symmetric]
      doe_def [symmetric] c_def [symmetric] doc_def [symmetric] q_def [symmetric]
      doq_def [symmetric] yq_def [symmetric] doy_def [symmetric] yoe_def [symmetric]
      mp_def [symmetric] m'_def [symmetric]
    by auto
  have y': "y - (if m \<le> 2 then 1 else 0) = yoe + 400 * era" by (simp add: ymd)
  have era_back: "(yoe + 400 * era) div 400 = era" using yoe by simp
  have yoe_back: "(yoe + 400 * era) mod 400 = yoe" using yoe by simp
  have y4: "yoe div 4 = 25 * c + q" using yq unfolding yoe_def by arith
  have y100: "yoe div 100 = c" using yq q unfolding yoe_def by arith
  have doe_back: "365 * yoe + yoe div 4 - yoe div 100 + doy = doe"
    unfolding y4 y100 unfolding yoe_def doy_def using docq doc_def by simp
  have "days_from_civil y m d = z"
    unfolding days_from_civil_def Let_def y' era_back yoe_back
    unfolding ymd mp_back
    using doe_back z' z'_def by simp
  moreover have "400 * era \<le> y" "y \<le> 400 * era + 400" using yoe by (simp_all add: ymd)
  ultimately show ?thesis
    using m' d_lo d_hi by (simp add: ymd era_def z'_def)
qed

lemma pad_digits_2: "pad_digits 2 n = [digit_char (n div 10 mod 10), digit_char (n mod 10)]"
proof -
  have "(2::nat) = Suc (Suc 0)" by simp
  then have "pad_digits 2 n = pad_digits (Suc (Suc 0)) n" by (rule arg_cong)
  then show ?thesis by simp
qed

lemma pad_digits_3:
  "pad_digits 3 n = [digit_char (n div 10 div 10 mod 10), digit_char (n div 10 mod 10),
     digit_char (n mod 10)]"
proof -
  have "(3::nat) = Suc (Suc (Suc 0))" by simp
  then have "pad_digits 3 n = pad_digits (Suc (Suc (Suc 0))) n" by (rule arg_cong)
  then show ?thesis by simp
qed

lemma pad_digits_4:
  "pad_digits 4 n = [digit_char (n div 10 div 10 div 10 mod 10), digit_char (n div 10 div 10 mod 10),
     digit_char (n div 10 mod 10), digit_char (n mod 10)]"
proof -
  have "(4::nat) = Suc (Suc (Suc (Suc 0)))" by simp
  then have "pad_digits 4 n = pad_digits (Suc (Suc (Suc (Suc 0)))) n" by (rule arg_cong)
  then show ?thesis by simp
qed

lemma pad_digits_6:
  "\<exists>a b c d e f. pad_digits 6 n = [a, b, c, d, e, f]"
proof -
  have "(6::nat) = Suc (Suc (Suc (Suc (Suc (Suc 0)))))" by simp
  then have "pad_digits 6 n = pad_digits (Suc (Suc (Suc (Suc (Suc (Suc 0)))))) n" by (rule arg_cong)
  then show ?thesis by simp
qed

lemma time_of_day:
  fixes tid :: int
  assumes "0 \<le> tid" "tid < 86400000"
  shows "tid div 3600000 * 3600000 + tid div 60000 mod 60 * 60000 + tid div 1000 mod 60 * 1000
           + tid mod 1000 = tid \<and> 0 \<le> tid div 3600000 \<and> tid div 3600000 \<le> 23"
proof -
  define a where "a = tid div 1000"
  define b where "b = a div 60"
  define h where "h = b div 60"
  have e1: "tid div 60000 = b"
    using zdiv_zmult2_eq [of 60 tid 1000] by (simp add: a_def b_def)
  have e2: "tid div 3600000 = h"
    using zdiv_zmult2_eq [of 60 tid 60000] e1 by (simp add: h_def)
  have t: "tid = 1000 * a + tid mod 1000" unfolding a_def by simp
  have a: "a = 60 * b + a mod 60" unfolding b_def by simp
  have b: "b = 60 * h + b mod 60" unfolding h_def by simp
  have r: "0 \<le> tid mod 1000" "0 \<le> a mod 60" "0 \<le> b mod 60" by simp_all
  have sum: "h * 3600000 + b mod 60 * 60000 + a mod 60 * 1000 + tid mod 1000 = tid"
    using t a b by linarith
  have "0 \<le> h" "h \<le> 23" using assms t a b r by linarith+
  with sum show ?thesis unfolding e1 e2 a_def [symmetric] by simp
qed

lemma parse_date_time_fields:
  assumes M: "pad_digits 2 m = [m1, m2]" and D: "pad_digits 2 d = [d1, d2]"
    and H: "pad_digits 2 h = [h1, h2]" and MI: "pad_digits 2 mi = [mi1, mi2]"
    and S: "pad_digits 2 sec = [s1, s2]" and MS: "pad_digits 3 ms = [f1, f2, f3]"
    and b: "1 \<le> m" "m \<le> 12" "1 \<le> d" "d \<le> 31" "h \<le> 23" "mi \<le> 59" "sec \<le> 59" "ms \<le> 999"
  shows "parse_date_time y [CHR ''-'', m1, m2, CHR ''-'', d1, d2, CHR ''T'', h1, h2, CHR '':'',
            mi1, mi2, CHR '':'', s1, s2, CHR ''.'', f1, f2, f3, CHR ''Z''] =
         TimeClip (days_from_civil y (int m) (int d) * 86400000
                   + int h * 3600000 + int mi * 60000 + int sec * 1000 + int ms)"
proof -
  have pm: "parse_digits 0 [m1, m2] = Some m" using parse_pad_digits [of m 2 0] b M by simp
  have pd: "parse_digits 0 [d1, d2] = Some d" using parse_pad_digits [of d 2 0] b D by simp
  have ph: "parse_digits 0 [h1, h2] = Some h" using parse_pad_digits [of h 2 0] b H by simp
  have pmi: "parse_digits 0 [mi1, mi2] = Some mi" using parse_pad_digits [of mi 2 0] b MI by simp
  have ps: "parse_digits 0 [s1, s2] = Some sec" using parse_pad_digits [of sec 2 0] b S by simp
  have pms: "parse_digits 0 [f1, f2, f3] = Some ms" using parse_pad_digits [of ms 3 0] b MS by simp
  show ?thesis
    unfolding parse_date_time_def field_def
    using b by (simp add: pm pd ph pmi ps pms del: parse_digits.simps)
qed

lemma parse_iso_toISOString:
  assumes "valid_time t"
  shows "parse_iso (toISOString t) = Some t"
proof -
  define day where "day = t div 86400000"
  define tid where "tid = t mod 86400000"
  obtain y m d where civ: "civil_from_days day = (y, m, d)" by (cases "civil_from_days day") auto
  define E where "E = (day + 719468) div 146097"
  from civil_roundtrip [OF civ]
  have dfc: "days_from_civil y m d = day" and m: "1 \<le> m" "m \<le> 12" and d: "1 \<le> d" "d \<le> 31"
    and y: "400 * E \<le> y" "y \<le> 400 * E + 400"
    unfolding E_def by simp_all
  have tid: "0 \<le> tid" "tid < 86400000" by (simp_all add: tid_def)
  define H where "H = tid div 3600000"
  define MI where "MI = tid div 60000 mod 60"
  define S where "S = tid div 1000 mod 60"
  define MS where "MS = tid mod 1000"
  from time_of_day [OF tid]
  have tod: "H * 3600000 + MI * 60000 + S * 1000 + MS = tid" and H: "0 \<le> H" "H \<le> 23"
    unfolding H_def MI_def S_def MS_def by simp_all
  have r: "0 \<le> MI" "MI < 60" "0 \<le> S" "S < 60" "0 \<le> MS" "MS < 1000"
    unfolding MI_def S_def MS_def by simp_all
  have t: "t = day * 86400000 + tid" by (simp add: day_def tid_def)
  have day: "- 100000000 \<le> day" "day \<le> 100000000"
    using assms zdiv_mono1 [of "- 8640000000000000" t 86400000]
      zdiv_mono1 [of t 8640000000000000 86400000]
    unfolding valid_time_def day_def by simp_all
  have era: "- 681 \<le> E" "E \<le> 690"
    using day zdiv_mono1 [of "- 99280532" "day + 719468" 146097]
      zdiv_mono1 [of "day + 719468" 100719468 146097]
    unfolding E_def by simp_all
  have ybound: "- 999999 \<le> y" "y \<le> 999999" using y era by linarith+
  define mm where "mm = nat m"
  define dd where "dd = nat d"
  define h where "h = nat H"
  define mi where "mi = nat MI"
  define sec where "sec = nat S"
  define ms where "ms = nat MS"
  have bnd: "1 \<le> mm" "mm \<le> 12" "1 \<le> dd" "dd \<le> 31" "h \<le> 23" "mi \<le> 59" "sec \<le> 59" "ms \<le> 999"
    unfolding mm_def dd_def h_def mi_def sec_def ms_def using m d H r by linarith+
  have ints: "int mm = m" "int dd = d" "int h = H" "int mi = MI" "int sec = S" "int ms = MS"
    using m d H r by (simp_all add: mm_def dd_def h_def mi_def sec_def ms_def)
  have total: "days_from_civil y (int mm) (int dd) * 86400000
      + int h * 3600000 + int mi * 60000 + int sec * 1000 + int ms = t"
    unfolding ints dfc using tod t by simp
  define tail where "tail = pad_digits 2 mm @ ''-'' @ pad_digits 2 dd
           @ ''T'' @ pad_digits 2 h @ '':'' @ pad_digits 2 mi
           @ '':'' @ pad_digits 2 sec @ ''.'' @ pad_digits 3 ms @ ''Z''"
  have ptail: "parse_date_time y (CHR ''-'' # tail) = Some t"
    unfolding tail_def pad_digits_2 pad_digits_3
    using parse_date_time_fields [OF pad_digits_2 pad_digits_2 pad_digits_2 pad_digits_2
        pad_digits_2 pad_digits_3 bnd, of y] total assms
    by (simp add: TimeClip_def)
  have iso: "toISOString t =
      (if 0 \<le> y \<and> y \<le> 9999 then pad_digits 4 (nat y)
       else (if y < 0 then CHR ''-'' else CHR ''+'') # pad_digits 6 (nat \<bar>y\<bar>)) @ CHR ''-'' # tail"
    unfolding toISOString_def Let_def day_def [symmetric] tid_def [symmetric] civ tail_def
      mm_def dd_def h_def mi_def sec_def ms_def H_def MI_def S_def MS_def
    by simp
  show ?thesis
  proof (cases "0 \<le> y \<and> y \<le> 9999")
    case True
    then have "nat y < 10 ^ 4" by auto
    then have py: "parse_digits 0 (pad_digits 4 (nat y)) = Some (nat y)"
      using parse_pad_digits [of "nat y" 4 0] by simp
    obtain a b c e where p4: "pad_digits 4 (nat y) = [a, b, c, e]"
      and ns: "a \<noteq> CHR ''+''" "a \<noteq> CHR ''-''"
      using pad_digits_4 [of "nat y"] digit_char_not_sign [of "nat y div 10 div 10 div 10 mod 10"]
      by simp
    have "toISOString t = a # b # c # e # CHR ''-'' # tail" using True iso p4 by simp
    moreover have "parse_digits 0 [a, b, c, e] = Some (nat y)" using py p4 by simp
    ultimately show ?thesis
      using ptail True ns
      by (simp add: parse_iso_def field_def del: parse_digits.simps)
  next
    case False
    then have neg: "y < 0 \<or> 9999 < y" by linarith
    have "nat \<bar>y\<bar> < 10 ^ 6" using ybound by auto
    then have py: "parse_digits 0 (pad_digits 6 (nat \<bar>y\<bar>)) = Some (nat \<bar>y\<bar>)"
      using parse_pad_digits [of "nat \<bar>y\<bar>" 6 0] by simp
    obtain a b c e f g where p6: "pad_digits 6 (nat \<bar>y\<bar>) = [a, b, c, e, f, g]"
      using pad_digits_6 by blast
    have iso': "toISOString t = (if y < 0 then CHR ''-'' else CHR ''+'') # a # b # c # e # f # g # CHR ''-'' # tail"
      using False iso p6 by auto
    have py': "parse_digits 0 [a, b, c, e, f, g] = Some (nat \<bar>y\<bar>)" using py p6 by simp
    show ?thesis
    proof (cases "y < 0")
      case True
      then show ?thesis using iso' py' ptail
        by (simp add: parse_iso_def field_def del: parse_digits.simps)
    next
      case False
      with neg have "9999 < y" by simp
      then show ?thesis using iso' py' ptail
        by (simp add: parse_iso_def field_def del: parse_digits.simps)
    qed
  qed
qed

lemma Date_parse_toISOString:
  "valid_time t \<Longrightarrow> Date_parse other (toISOString t) = Some t"
  by (simp add: Date_parse_def written_by_toISOString_def parse_iso_toISOString)

text \<open>A date-only text is read as the first instant of its day.\<close>

lemma new_Date_date_only: "new_Date other (VStr ''2024-01-15'') = VDate (Some 1705276800000)"
  by code_simp

section \<open>The accessors: lemmas\<close>

lemma getAttribute_emit [simp]: "getAttribute (emit e p) n = getAttribute p n"
  by (simp add: getAttribute_def emit_def)

lemma getControl_emit [simp]: "getControl (emit e p) n = getControl p n"
  by (simp add: getControl_def emit_def)

lemma trace_emit [simp]: "trace (emit e p) = trace p @ [e]"
  by (simp add: emit_def)

lemma getAttribute_update_attribute:
  "getAttribute (update_attribute p n f) k =
     (if k = n then map_option f (getAttribute p n) else getAttribute p k)"
  by (simp add: update_attribute_def getAttribute_def split: option.splits)

lemma trace_update_attribute [simp]: "trace (update_attribute p n f) = trace p"
  by (simp add: update_attribute_def split: option.splits)

lemma setValue_evaluate_result:
  assumes "getAttribute p n = Some a"
  shows "setValue_evaluate p n val opts =
     (if forceValue opts = Some True \<or> list_ex control_editable (attribute_controls p a)
      then (Inr (),
            host_fireOnChange
              (host_setValue p n
              (if attr_type a = ''datetime'' then new_Date (page_Date_parse p) val else val)) n)
      else (Inl (NotEditable n), p))"
  using assms by (simp add: setValue_evaluate_def Let_def)

lemma transport_value_cases:
  "v \<noteq> VDate None \<Longrightarrow> \<exists>val. transport_value v = Inr val"
  by (cases v rule: Date_toISOString.cases) (simp_all add: transport_value_def)

lemma setValue_written:
  assumes "getAttribute p n = Some a"
    and "forceValue (safeSettings s) = Some True \<or> list_ex control_editable (attribute_controls p a)"
    and "transport_value v = Inr val"
  shows "Attribute_setValue p n v s =
     (Inr (),
      waitForTimeout
        (host_fireOnChange
           (host_setValue p n
              (if attr_type a = ''datetime'' then new_Date (page_Date_parse p) val else val)) n)
        (or_default (settleTime (safeSettings s)) 500))"
  unfolding Attribute_setValue_def Let_def waitForXrmReady_def assms(3)
  using assms(2) by (simp add: setValue_evaluate_result [OF assms(1)])

lemma setValue_refused:
  assumes "getAttribute p n = Some a" "v \<noteq> VDate None"
    and "forceValue (safeSettings s) \<noteq> Some True"
    and "\<not> list_ex control_editable (attribute_controls p a)"
  shows "Attribute_setValue p n v s = (Inl (NotEditable n), p)"
proof -
  obtain val where tv: "transport_value v = Inr val"
    using transport_value_cases [OF assms(2)] by blast
  show ?thesis
    unfolding Attribute_setValue_def Let_def waitForXrmReady_def tv
    using assms(3,4) by (simp add: setValue_evaluate_result [OF assms(1)])
qed

lemma setValue_absent:
  assumes "getAttribute p n = None" "v \<noteq> VDate None"
  shows "Attribute_setValue p n v s = (Inl (AttributeNotFound n), p)"
proof -
  obtain val where tv: "transport_value v = Inr val"
    using transport_value_cases [OF assms(2)] by blast
  show ?thesis
    unfolding Attribute_setValue_def Let_def waitForXrmReady_def tv
    using assms(1) by (simp add: setValue_evaluate_def)
qed

lemma setValue_error_unchanged:
  "Attribute_setValue p n v s = (Inl e, p') \<Longrightarrow> p' = p"
  unfolding Attribute_setValue_def Let_def waitForXrmReady_def setValue_evaluate_def
  by (auto split: option.splits sum.splits if_splits prod.splits)

lemma getAttribute_after_write:
  assumes "getAttribute p n = Some a"
  shows "getAttribute (waitForTimeout (host_fireOnChange (host_setValue p n w) n) ms) n
           = Some (a\<lparr> attr_value := w \<rparr>)"
  using assms
  by (simp add: waitForTimeout_def host_fireOnChange_def host_setValue_def
      getAttribute_update_attribute)

lemma all_visible_top: "all_visible a \<Longrightarrow> container_visible a"
  by (cases a) simp

lemma all_visible_parent: "all_visible a \<Longrightarrow> container_parent a = Some b \<Longrightarrow> all_visible b"
  by (cases a) simp

lemma spec_editable_imp_control_editable:
  "spec_control_editable c \<Longrightarrow> control_editable c"
  unfolding spec_control_editable_def control_editable_def
  by (auto split: option.splits dest: all_visible_top all_visible_parent)

text \<open>
  The test of \<^verbatim>\<open>setValue\<close> looks at the control, its container and the container of that
  container. It agrees with the rule of the specification on controls with at most two
  containers above them, and accepts every control that the rule accepts.
\<close>

lemma control_editable_two_levels:
  assumes "at_most_two_containers c"
  shows "control_editable c = spec_control_editable c"
proof (cases "ctl_parent c")
  case None
  then show ?thesis by (simp add: spec_control_editable_def control_editable_def)
next
  case (Some par)
  obtain v pp where par: "par = Container v pp" by (cases par)
  show ?thesis
  proof (cases pp)
    case None
    with Some par show ?thesis by (simp add: spec_control_editable_def control_editable_def)
  next
    case (Some gp)
    obtain w gg where gp: "gp = Container w gg" by (cases gp)
    from assms \<open>ctl_parent c = Some par\<close> par Some gp have "gg = None"
      by (simp add: at_most_two_containers_def)
    with \<open>ctl_parent c = Some par\<close> par Some gp show ?thesis
      by (simp add: spec_control_editable_def control_editable_def)
  qed
qed

lemma list_ex_editable_two_levels:
  "list_all at_most_two_containers cs \<Longrightarrow>
     list_ex control_editable cs = list_ex spec_control_editable cs"
  by (induction cs) (simp_all add: control_editable_two_levels)

lemmas sample_defs =
  sample_page_def sample_attributes_def sample_controls_def text_attribute_def
  datetime_attribute_def field_control_def section_summary_def tab_general_def tab_hidden_def
  section_details_def section_nested_def contacts_grid_def

lemmas access_defs =
  getAttribute_def getControl_def attribute_controls_def List.map_filter_simps
  control_editable_def spec_control_editable_def at_most_two_containers_def

lemmas attribute_op_defs =
  Attribute_getRequiredLevel_def Attribute_getValue_def getValue_evaluate_def
  Attribute_getAttributeType_def Attribute_getFormattedValue_def Attribute_isDirty_def
  Attribute_setRequiredLevel_def

lemmas control_op_defs =
  Control_get_def Control_getOptions_def Control_setVisible_def Control_setDisabled_def
  Control_getLabel_def Control_setLabel_def

lemmas subgrid_op_defs =
  SubGrid_getRecordCount_def SubGrid_getVisibleRecordCount_def SubGrid_openNthRecord_def
  openNthRecord_evaluate_def SubGrid_getEntityName_def SubGrid_refresh_def
  SubGrid_getRecordIds_def SubGrid_isVisible_def

lemma written_append: "written (es @ fs) = written es @ written fs"
  by (induction es rule: written.induct) simp_all

lemma setValue_success_shape:
  assumes "Attribute_setValue p n v s = (Inr (), p')"
  shows "\<exists>w. p' = waitForTimeout (host_fireOnChange (host_setValue p n w) n)
                    (or_default (settleTime (safeSettings s)) 500)"
  using assms
  unfolding Attribute_setValue_def Let_def waitForXrmReady_def setValue_evaluate_def
  by (auto split: option.splits sum.splits if_splits prod.splits)

lemma setValue_trace:
  assumes "Attribute_setValue p n v s = (Inr (), p')"
  shows "\<exists>w. trace p' = trace p @ [SetValue n w, FireOnChange n,
                   WaitForTimeout (or_default (settleTime (safeSettings s)) 500)]"
proof -
  from setValue_success_shape [OF assms] obtain w where
    "p' = waitForTimeout (host_fireOnChange (host_setValue p n w) n)
            (or_default (settleTime (safeSettings s)) 500)" by blast
  then have "trace p' = trace p @ [SetValue n w, FireOnChange n,
                   WaitForTimeout (or_default (settleTime (safeSettings s)) 500)]"
    by (simp add: waitForTimeout_def host_fireOnChange_def host_setValue_def)
  then show ?thesis by blast
qed

lemma setValue_written_names:
  assumes "Attribute_setValue p n v s = (Inr (), p')"
  shows "written (trace p') = written (trace p) @ [n]"
  using setValue_trace [OF assms] by (auto simp: written_append)

lemma setValues_written_names:
  "Attribute_setValues p xs s = (Inr (), p') \<Longrightarrow>
     written (trace p') = written (trace p) @ map fst xs"
proof (induction xs arbitrary: p)
  case Nil
  then show ?case by simp
next
  case (Cons x xs)
  obtain k v where x: "x = (k, v)" by (cases x)
  obtain r q where step: "Attribute_setValue p k v s = (r, q)"
    by (cases "Attribute_setValue p k v s")
  show ?case
  proof (cases r)
    case (Inl e)
    with Cons.prems x step show ?thesis by simp
  next
    case (Inr u)
    with Cons.prems x step have rest: "Attribute_setValues q xs s = (Inr (), p')" by simp
    from Inr step have "Attribute_setValue p k v s = (Inr (), q)" by simp
    then have "written (trace q) = written (trace p) @ [k]" by (rule setValue_written_names)
    with Cons.IH [OF rest] x show ?thesis by simp
  qed
qed

lemma setValues_append:
  "Attribute_setValues p (xs @ ys) s =
     (case Attribute_setValues p xs s of
        (Inl e, p') \<Rightarrow> (Inl e, p')
      | (Inr u, p') \<Rightarrow> Attribute_setValues p' ys s)"
proof (induction xs arbitrary: p)
  case Nil
  then show ?case by simp
next
  case (Cons x xs)
  obtain k v where x: "x = (k, v)" by (cases x)
  show ?case
    by (simp add: x Cons.IH split: prod.splits sum.splits)
qed

lemmas setValue_defs =
  Attribute_setValue_def transport_value_def setValue_evaluate_def waitForXrmReady_def
  host_setValue_def host_fireOnChange_def waitForTimeout_def emit_def update_attribute_def
  or_default_def safeSettings_def spread_def defaults_def Let_def

text \<open>
  The pause after a write, by the form of the \<^verbatim>\<open>settings\<close> argument: a settle time of 0 is
  falsy in \<^verbatim>\<open>safeSettings.settleTime || 500\<close> and is replaced by 500.
\<close>

lemma setValue_pause:
  assumes "Attribute_setValue p n v s = (Inr (), p')"
  shows "last (trace p') = WaitForTimeout
     (case s of
        NoSettings \<Rightarrow> 500
      | SettleNumber k \<Rightarrow> if k = 0 then 500 else k
      | SettingsObject c \<Rightarrow>
          (case settleTime c of None \<Rightarrow> 500 | Some k \<Rightarrow> if k = 0 then 500 else k))"
proof -
  from setValue_trace [OF assms] have
    "last (trace p') = WaitForTimeout (or_default (settleTime (safeSettings s)) 500)" by auto
  then show ?thesis
    by (simp add: or_default_def safeSettings_def spread_def defaults_def
        split: settings_arg.splits option.splits)
qed

lemma getRecordIds_loop_eq:
  "getRecordIds_loop rows ids = ids @ map (\<lambda>row. normalizedId (row_id row)) rows"
  by (induction rows arbitrary: ids) simp_all

lemma lower_not_upper_or_brace:
  "l \<in> set ''abcdefghijklmnopqrstuvwxyz'' \<Longrightarrow>
     l \<notin> set ''ABCDEFGHIJKLMNOPQRSTUVWXYZ'' \<and> l \<noteq> CHR ''{'' \<and> l \<noteq> CHR ''}''"
  by auto

lemma toLowerCase_char_not_upper:
  "toLowerCase_char ch \<notin> set ''ABCDEFGHIJKLMNOPQRSTUVWXYZ''"
proof (cases "map_of (zip ''ABCDEFGHIJKLMNOPQRSTUVWXYZ'' ''abcdefghijklmnopqrstuvwxyz'') ch")
  case None
  then have "ch \<notin> set ''ABCDEFGHIJKLMNOPQRSTUVWXYZ''"
    by (subst (asm) map_of_zip_is_None) simp_all
  moreover have "toLowerCase_char ch = ch" unfolding toLowerCase_char_def None by simp
  ultimately show ?thesis by simp
next
  case (Some l)
  then have "l \<in> set ''abcdefghijklmnopqrstuvwxyz''"
    by (meson map_of_SomeD set_zip_rightD)
  then have "l \<notin> set ''ABCDEFGHIJKLMNOPQRSTUVWXYZ''"
    using lower_not_upper_or_brace by blast
  moreover have "toLowerCase_char ch = l" unfolding toLowerCase_char_def Some by simp
  ultimately show ?thesis by simp
qed

lemma toLowerCase_char_brace:
  assumes "ch \<noteq> CHR ''{''" "ch \<noteq> CHR ''}''"
  shows "toLowerCase_char ch \<noteq> CHR ''{'' \<and> toLowerCase_char ch \<noteq> CHR ''}''"
proof (cases "map_of (zip ''ABCDEFGHIJKLMNOPQRSTUVWXYZ'' ''abcdefghijklmnopqrstuvwxyz'') ch")
  case None
  have "toLowerCase_char ch = ch" unfolding toLowerCase_char_def None by simp
  with assms show ?thesis by (simp only:) simp
next
  case (Some l)
  then have "l \<in> set ''abcdefghijklmnopqrstuvwxyz''"
    by (meson map_of_SomeD set_zip_rightD)
  then have "l \<noteq> CHR ''{'' \<and> l \<noteq> CHR ''}''"
    using lower_not_upper_or_brace by blast
  moreover have "toLowerCase_char ch = l" unfolding toLowerCase_char_def Some by simp
  ultimately show ?thesis by simp
qed

lemma normalizedId_member:
  assumes "x \<in> set (normalizedId raw)"
  shows "\<exists>ch. x = toLowerCase_char ch \<and> ch \<noteq> CHR ''{'' \<and> ch \<noteq> CHR ''}''"
proof -
  from assms have "x \<in> toLowerCase_char ` set (filter (\<lambda>ch. ch \<noteq> CHR ''{'' \<and> ch \<noteq> CHR ''}'') raw)"
    unfolding normalizedId_def toLowerCase_def by (simp only: set_map)
  then obtain ch where x: "x = toLowerCase_char ch"
    and "ch \<in> set (filter (\<lambda>ch. ch \<noteq> CHR ''{'' \<and> ch \<noteq> CHR ''}'') raw)"
    by (rule imageE)
  then have "ch \<noteq> CHR ''{'' \<and> ch \<noteq> CHR ''}''" by simp
  with x show ?thesis by blast
qed

lemma normalizedId_clean:
  "CHR ''{'' \<notin> set (normalizedId raw) \<and> CHR ''}'' \<notin> set (normalizedId raw)
   \<and> set (normalizedId raw) \<inter> set ''ABCDEFGHIJKLMNOPQRSTUVWXYZ'' = {}"
proof (intro conjI)
  show "CHR ''{'' \<notin> set (normalizedId raw)"
  proof
    assume "CHR ''{'' \<in> set (normalizedId raw)"
    from normalizedId_member [OF this] obtain ch where
      "CHR ''{'' = toLowerCase_char ch" "ch \<noteq> CHR ''{''" "ch \<noteq> CHR ''}''" by (elim exE conjE)
    with toLowerCase_char_brace [of ch] show False by (simp only:) simp
  qed
  show "CHR ''}'' \<notin> set (normalizedId raw)"
  proof
    assume "CHR ''}'' \<in> set (normalizedId raw)"
    from normalizedId_member [OF this] obtain ch where
      "CHR ''}'' = toLowerCase_char ch" "ch \<noteq> CHR ''{''" "ch \<noteq> CHR ''}''" by (elim exE conjE)
    with toLowerCase_char_brace [of ch] show False by (simp only:) simp
  qed
  show "set (normalizedId raw) \<inter> set ''ABCDEFGHIJKLMNOPQRSTUVWXYZ'' = {}"
  proof (rule ccontr)
    assume "set (normalizedId raw) \<inter> set ''ABCDEFGHIJKLMNOPQRSTUVWXYZ'' \<noteq> {}"
    then obtain x where x: "x \<in> set (normalizedId raw)" "x \<in> set ''ABCDEFGHIJKLMNOPQRSTUVWXYZ''"
      by (meson disjoint_iff)
    from normalizedId_member [OF x(1)] obtain ch where "x = toLowerCase_char ch"
      by (elim exE conjE)
    with x(2) toLowerCase_char_not_upper [of ch] show False by (simp only:)
  qed
qed

section \<open>Claims about the form field accessor\<close>

text \<open>
  C1 as stated fails: the field \<^verbatim>\<open>createdon\<close> of the sample page has the type
  \<^verbatim>\<open>datetime\<close> and its only control is disabled, so \<^verbatim>\<open>setValue\<close> with a valid date and no
  \<^verbatim>\<open>forceValue\<close> is refused, and \<^verbatim>\<open>getValue\<close> afterwards returns the date the field held
  before, not the date given.
\<close>

theorem datetime_round_trip_refused_counterexample:
  "getAttribute sample_page ''createdon''
     = Some (datetime_attribute (VDate (Some 1700000000000)) ''createdon'')
   \<and> attr_type (datetime_attribute (VDate (Some 1700000000000)) ''createdon'') = ''datetime''
   \<and> valid_time 1700000000123
   \<and> Attribute_setValue sample_page ''createdon'' (VDate (Some 1700000000123)) NoSettings
       = (Inl (NotEditable ''createdon''), sample_page)
   \<and> Attribute_getValue
        (snd (Attribute_setValue sample_page ''createdon'' (VDate (Some 1700000000123)) NoSettings))
        ''createdon'' = (Inr (VDate (Some 1700000000000)), sample_page)
   \<and> VDate (Some 1700000000000) \<noteq> VDate (Some 1700000000123)"
proof -
  let ?c = "datetime_attribute (VDate (Some 1700000000000)) ''createdon''"
  have c1: "getAttribute sample_page ''createdon'' = Some ?c"
    by (simp add: sample_defs access_defs)
  have c2: "attr_type ?c = ''datetime''" by (simp add: datetime_attribute_def)
  have v: "valid_time 1700000000123" "valid_time 1700000000000" by (simp_all add: valid_time_def)
  have n: "forceValue (safeSettings NoSettings) \<noteq> Some True"
    by (simp add: safeSettings_def spread_def defaults_def)
  have e: "\<not> list_ex control_editable (attribute_controls sample_page ?c)"
    by (simp add: sample_defs access_defs)
  have r: "Attribute_setValue sample_page ''createdon'' (VDate (Some 1700000000123)) NoSettings
       = (Inl (NotEditable ''createdon''), sample_page)"
    using setValue_refused [OF c1 _ n e, of "VDate (Some 1700000000123)"] by simp
  have ev: "getValue_evaluate sample_page ''createdon''
      = Inr (''datetime'', VStr (toISOString 1700000000000))"
    by (simp add: getValue_evaluate_def c1 datetime_attribute_def)
  have g: "Attribute_getValue sample_page ''createdon''
      = (Inr (VDate (Some 1700000000000)), sample_page)"
    by (simp add: Attribute_getValue_def waitForXrmReady_def ev Date_parse_toISOString [OF v(2)])
  show ?thesis using c1 c2 v(1) r g by simp
qed

text \<open>
  C1, as the code has it. For an attribute of type \<^verbatim>\<open>datetime\<close> and a valid date \<open>t\<close> (a
  time value in milliseconds): \<^verbatim>\<open>setValue\<close> hands the ISO text of \<open>t\<close> to the callback in
  the page, not the date (the call is the callback applied to that text, followed by the
  pause), and the callback reads the text back into the date \<open>t\<close> before writing.
  \<^verbatim>\<open>setValue\<close> succeeds when the field has an editable control or \<^verbatim>\<open>forceValue\<close> is set, and
  is refused with the page untouched otherwise. Whenever it succeeds, the date \<open>t\<close> is
  what is written to the host, the callback of \<^verbatim>\<open>getValue\<close> hands the ISO text of \<open>t\<close> out
  of the page, and \<^verbatim>\<open>getValue\<close> on the same form returns the date \<open>t\<close>.
\<close>

theorem datetime_value_round_trip:
  assumes "getAttribute p fieldName = Some a" "attr_type a = ''datetime''" "valid_time t"
  shows "transport_value (VDate (Some t)) = Inr (VStr (toISOString t))
    \<and> Attribute_setValue p fieldName (VDate (Some t)) settings
        = (case setValue_evaluate p fieldName (VStr (toISOString t)) (safeSettings settings) of
             (Inl e, p') \<Rightarrow> (Inl e, p')
           | (Inr u, p') \<Rightarrow>
               (Inr (), waitForTimeout p' (or_default (settleTime (safeSettings settings)) 500)))
    \<and> new_Date (page_Date_parse p) (VStr (toISOString t)) = VDate (Some t)
    \<and> (forceValue (safeSettings settings) = Some True
            \<or> list_ex control_editable (attribute_controls p a)
          \<longrightarrow> (\<exists>p'. Attribute_setValue p fieldName (VDate (Some t)) settings = (Inr (), p')))
    \<and> (forceValue (safeSettings settings) \<noteq> Some True
            \<and> \<not> list_ex control_editable (attribute_controls p a)
          \<longrightarrow> Attribute_setValue p fieldName (VDate (Some t)) settings
                = (Inl (NotEditable fieldName), p))
    \<and> (\<forall>p'. Attribute_setValue p fieldName (VDate (Some t)) settings = (Inr (), p')
          \<longrightarrow> trace p' = trace p @ [SetValue fieldName (VDate (Some t)), FireOnChange fieldName,
                   WaitForTimeout (or_default (settleTime (safeSettings settings)) 500)]
              \<and> Attribute_getValue p' fieldName = (Inr (VDate (Some t)), p')
              \<and> getValue_evaluate p' fieldName = Inr (''datetime'', VStr (toISOString t))
              \<and> map_option attr_value (getAttribute p' fieldName) = Some (VDate (Some t)))"
proof (intro conjI impI allI)
  show tv: "transport_value (VDate (Some t)) = Inr (VStr (toISOString t))"
    by (simp add: transport_value_def)
  show "Attribute_setValue p fieldName (VDate (Some t)) settings
        = (case setValue_evaluate p fieldName (VStr (toISOString t)) (safeSettings settings) of
             (Inl e, p') \<Rightarrow> (Inl e, p')
           | (Inr u, p') \<Rightarrow>
               (Inr (), waitForTimeout p' (or_default (settleTime (safeSettings settings)) 500)))"
    by (simp add: Attribute_setValue_def Let_def waitForXrmReady_def tv)
  show "new_Date (page_Date_parse p) (VStr (toISOString t)) = VDate (Some t)"
    by (simp add: Date_parse_toISOString [OF assms(3)])
next
  assume ed: "forceValue (safeSettings settings) = Some True
            \<or> list_ex control_editable (attribute_controls p a)"
  have tv: "transport_value (VDate (Some t)) = Inr (VStr (toISOString t))"
    by (simp add: transport_value_def)
  show "\<exists>p'. Attribute_setValue p fieldName (VDate (Some t)) settings = (Inr (), p')"
    using setValue_written [OF assms(1) ed tv] by simp
next
  assume "forceValue (safeSettings settings) \<noteq> Some True
            \<and> \<not> list_ex control_editable (attribute_controls p a)"
  then show "Attribute_setValue p fieldName (VDate (Some t)) settings
                = (Inl (NotEditable fieldName), p)"
    using setValue_refused [OF assms(1), of "VDate (Some t)" settings] by simp
next
  fix p'
  assume ok: "Attribute_setValue p fieldName (VDate (Some t)) settings = (Inr (), p')"
  have tv: "transport_value (VDate (Some t)) = Inr (VStr (toISOString t))"
    by (simp add: transport_value_def)
  have ed: "forceValue (safeSettings settings) = Some True
            \<or> list_ex control_editable (attribute_controls p a)"
  proof (rule ccontr)
    assume "\<not> ?thesis"
    then have "Attribute_setValue p fieldName (VDate (Some t)) settings = (Inl (NotEditable fieldName), p)"
      using setValue_refused [OF assms(1), of "VDate (Some t)" settings] by simp
    with ok show False by simp
  qed
  have p': "p' = waitForTimeout
        (host_fireOnChange (host_setValue p fieldName (VDate (Some t))) fieldName)
        (or_default (settleTime (safeSettings settings)) 500)"
    using setValue_written [OF assms(1) ed tv] ok
    by (simp add: assms(2) Date_parse_toISOString [OF assms(3)])
  show "trace p' = trace p @ [SetValue fieldName (VDate (Some t)), FireOnChange fieldName,
                   WaitForTimeout (or_default (settleTime (safeSettings settings)) 500)]"
    unfolding p' by (simp add: waitForTimeout_def host_fireOnChange_def host_setValue_def)
  have ga: "getAttribute p' fieldName = Some (a\<lparr> attr_value := VDate (Some t) \<rparr>)"
    unfolding p' by (rule getAttribute_after_write [OF assms(1)])
  show ev: "getValue_evaluate p' fieldName = Inr (''datetime'', VStr (toISOString t))"
    by (simp add: getValue_evaluate_def ga assms(2))
  show "Attribute_getValue p' fieldName = (Inr (VDate (Some t)), p')"
    by (simp add: Attribute_getValue_def waitForXrmReady_def ev Date_parse_toISOString [OF assms(3)])
  show "map_option attr_value (getAttribute p' fieldName) = Some (VDate (Some t))"
    by (simp add: ga)
qed

text \<open>
  C1 on the sample page: written to and read back from \<^verbatim>\<open>lastonholdtime\<close>, refused on the
  read-only \<^verbatim>\<open>createdon\<close>.
\<close>

theorem datetime_value_round_trip_witness:
  "fst (Attribute_setValue sample_page ''lastonholdtime'' (VDate (Some 1700000000123)) NoSettings)
     = Inr ()
   \<and> fst (Attribute_getValue
        (snd (Attribute_setValue sample_page ''lastonholdtime'' (VDate (Some 1700000000123))
               NoSettings))
        ''lastonholdtime'') = Inr (VDate (Some 1700000000123))
   \<and> transport_value (VDate (Some 1700000000123)) = Inr (VStr (toISOString 1700000000123))
   \<and> Attribute_setValue sample_page ''createdon'' (VDate (Some 1700000000123)) NoSettings
       = (Inl (NotEditable ''createdon''), sample_page)"
proof -
  let ?a = "datetime_attribute VNull ''lastonholdtime''"
  let ?c = "datetime_attribute (VDate (Some 1700000000000)) ''createdon''"
  have h1: "getAttribute sample_page ''lastonholdtime'' = Some ?a"
    by (simp add: sample_defs access_defs)
  have h2: "attr_type ?a = ''datetime''" by (simp add: datetime_attribute_def)
  have h3: "valid_time 1700000000123" by (simp add: valid_time_def)
  have h4: "list_ex control_editable (attribute_controls sample_page ?a)"
    by (simp add: sample_defs access_defs)
  have c1: "getAttribute sample_page ''createdon'' = Some ?c"
    by (simp add: sample_defs access_defs)
  have c2: "attr_type ?c = ''datetime''" by (simp add: datetime_attribute_def)
  have c4: "forceValue (safeSettings NoSettings) \<noteq> Some True
      \<and> \<not> list_ex control_editable (attribute_controls sample_page ?c)"
    by (simp add: sample_defs access_defs safeSettings_def spread_def defaults_def)
  note T = datetime_value_round_trip [OF h1 h2 h3, of NoSettings]
  note C = datetime_value_round_trip [OF c1 c2 h3, of NoSettings]
  from T h4 obtain p' where ok:
    "Attribute_setValue sample_page ''lastonholdtime'' (VDate (Some 1700000000123)) NoSettings
       = (Inr (), p')" by blast
  with T have "Attribute_getValue p' ''lastonholdtime'' = (Inr (VDate (Some 1700000000123)), p')"
    by blast
  moreover from T have "transport_value (VDate (Some 1700000000123))
      = Inr (VStr (toISOString 1700000000123))" by blast
  moreover from C c4 have
    "Attribute_setValue sample_page ''createdon'' (VDate (Some 1700000000123)) NoSettings
       = (Inl (NotEditable ''createdon''), sample_page)" by blast
  ultimately show ?thesis using ok by simp
qed

text \<open>
  C2, as the code has it. For a field of the form and a value other than an invalid date:
  when \<^verbatim>\<open>forceValue\<close> is not set and no control of the field is at once not disabled,
  visible, and below a visible container whose own container (if any) is visible,
  \<^verbatim>\<open>setValue\<close> fails with the uneditable-field error and the page is untouched (no write, no
  change notification, no pause). Containers further up are not consulted; where every
  control of the field has at most two containers above it, this is the rule of the
  specification (all ancestor containers visible). When \<^verbatim>\<open>forceValue\<close> is true the check is
  skipped and the write, the notification and the pause take place.
\<close>

theorem setValue_needs_editable_control:
  assumes "getAttribute p fieldName = Some a" "v \<noteq> VDate None"
  shows "(forceValue (safeSettings settings) \<noteq> Some True
            \<and> \<not> list_ex control_editable (attribute_controls p a)
          \<longrightarrow> Attribute_setValue p fieldName v settings = (Inl (NotEditable fieldName), p))
    \<and> (forceValue (safeSettings settings) \<noteq> Some True
            \<and> list_all at_most_two_containers (attribute_controls p a)
            \<and> \<not> list_ex spec_control_editable (attribute_controls p a)
          \<longrightarrow> Attribute_setValue p fieldName v settings = (Inl (NotEditable fieldName), p))
    \<and> (forceValue (safeSettings settings) = Some True
          \<longrightarrow> (\<exists>val. transport_value v = Inr val
                 \<and> Attribute_setValue p fieldName v settings =
                 (Inr (),
                  waitForTimeout
                    (host_fireOnChange
                       (host_setValue p fieldName
                          (if attr_type a = ''datetime''
                           then new_Date (page_Date_parse p) val else val)) fieldName)
                    (or_default (settleTime (safeSettings settings)) 500))))"
proof (intro conjI impI)
  assume "forceValue (safeSettings settings) \<noteq> Some True
            \<and> \<not> list_ex control_editable (attribute_controls p a)"
  then show "Attribute_setValue p fieldName v settings = (Inl (NotEditable fieldName), p)"
    using setValue_refused [OF assms] by simp
next
  assume "forceValue (safeSettings settings) \<noteq> Some True
            \<and> list_all at_most_two_containers (attribute_controls p a)
            \<and> \<not> list_ex spec_control_editable (attribute_controls p a)"
  then show "Attribute_setValue p fieldName v settings = (Inl (NotEditable fieldName), p)"
    using setValue_refused [OF assms] list_ex_editable_two_levels by blast
next
  assume f: "forceValue (safeSettings settings) = Some True"
  obtain val where tv: "transport_value v = Inr val"
    using transport_value_cases [OF assms(2)] by blast
  show "\<exists>val. transport_value v = Inr val
                 \<and> Attribute_setValue p fieldName v settings =
                 (Inr (),
                  waitForTimeout
                    (host_fireOnChange
                       (host_setValue p fieldName
                          (if attr_type a = ''datetime''
                           then new_Date (page_Date_parse p) val else val)) fieldName)
                    (or_default (settleTime (safeSettings settings)) 500))"
    using setValue_written [OF assms(1) _ tv, of settings] f tv by blast
qed

text \<open>
  C2 on the field \<^verbatim>\<open>fax\<close> of the sample page, whose section lies in a hidden tab: refused
  without \<^verbatim>\<open>forceValue\<close>, written with it.
\<close>

theorem setValue_needs_editable_control_witness:
  "Attribute_setValue sample_page ''fax'' (VStr ''+1-555-0101'') NoSettings
     = (Inl (NotEditable ''fax''), sample_page)
   \<and> fst (Attribute_setValue sample_page ''fax'' (VStr ''+1-555-0101'')
            (SettingsObject \<lparr> settleTime = None, forceValue = Some True \<rparr>)) = Inr ()
   \<and> map_option attr_value
        (getAttribute
           (snd (Attribute_setValue sample_page ''fax'' (VStr ''+1-555-0101'')
                  (SettingsObject \<lparr> settleTime = None, forceValue = Some True \<rparr>))) ''fax'')
       = Some (VStr ''+1-555-0101'')"
proof -
  let ?a = "text_attribute ''text'' [] ''fax''"
  let ?force = "SettingsObject \<lparr> settleTime = None, forceValue = Some True \<rparr>"
  have h1: "getAttribute sample_page ''fax'' = Some ?a" by (simp add: sample_defs access_defs)
  have h2: "VStr ''+1-555-0101'' \<noteq> VDate None" by simp
  have n: "forceValue (safeSettings NoSettings) \<noteq> Some True"
    by (simp add: safeSettings_def spread_def defaults_def)
  have f: "forceValue (safeSettings ?force) = Some True"
    by (simp add: safeSettings_def spread_def defaults_def)
  have c: "list_all at_most_two_containers (attribute_controls sample_page ?a)"
    "\<not> list_ex spec_control_editable (attribute_controls sample_page ?a)"
    by (simp_all add: sample_defs access_defs)
  from setValue_needs_editable_control [OF h1 h2, of NoSettings] n c
  have refused: "Attribute_setValue sample_page ''fax'' (VStr ''+1-555-0101'') NoSettings
     = (Inl (NotEditable ''fax''), sample_page)" by blast
  from setValue_needs_editable_control [OF h1 h2, of ?force] f
  obtain val where tv: "transport_value (VStr ''+1-555-0101'') = Inr val"
    and r: "Attribute_setValue sample_page ''fax'' (VStr ''+1-555-0101'') ?force =
        (Inr (),
         waitForTimeout
           (host_fireOnChange
              (host_setValue sample_page ''fax''
                 (if attr_type ?a = ''datetime''
                  then new_Date (page_Date_parse sample_page) val else val)) ''fax'')
           (or_default (settleTime (safeSettings ?force)) 500))"
    by blast
  from tv have val: "val = VStr ''+1-555-0101''" by (simp add: transport_value_def)
  have "getAttribute (snd (Attribute_setValue sample_page ''fax'' (VStr ''+1-555-0101'') ?force)) ''fax''
      = Some (?a\<lparr> attr_value := VStr ''+1-555-0101'' \<rparr>)"
    unfolding r val by (simp add: getAttribute_after_write [OF h1] text_attribute_def)
  with refused r show ?thesis by simp
qed

text \<open>
  C2 as stated fails. The control of \<^verbatim>\<open>telephone1\<close> on the sample page has a hidden
  container three levels up, so no control of the field has all its ancestor containers
  visible; \<^verbatim>\<open>forceValue\<close> is not set; yet \<^verbatim>\<open>setValue\<close> succeeds and writes the value.
\<close>

theorem setValue_hidden_outer_container_counterexample:
  "getAttribute sample_page ''telephone1'' = Some (text_attribute ''phone'' ''+1-555-0100'' ''telephone1'')
   \<and> forceValue (safeSettings NoSettings) = Some False
   \<and> \<not> list_ex spec_control_editable
         (attribute_controls sample_page (text_attribute ''phone'' ''+1-555-0100'' ''telephone1''))
   \<and> fst (Attribute_setValue sample_page ''telephone1'' (VStr ''+1-555-0199'') NoSettings) = Inr ()
   \<and> trace (snd (Attribute_setValue sample_page ''telephone1'' (VStr ''+1-555-0199'') NoSettings))
       = [SetValue ''telephone1'' (VStr ''+1-555-0199''), FireOnChange ''telephone1'',
          WaitForTimeout 500]"
  by (simp add: sample_defs access_defs safeSettings_def spread_def defaults_def
      Attribute_setValue_def transport_value_def setValue_evaluate_def waitForXrmReady_def
      host_setValue_def host_fireOnChange_def waitForTimeout_def emit_def update_attribute_def
      or_default_def Let_def)

text \<open>
  C4. \<^verbatim>\<open>getFormattedValue\<close> returns what the attribute's \<^verbatim>\<open>getFormat()\<close> returns, which is
  the name of the attribute's format and not its formatted value: on the sample page the
  field \<^verbatim>\<open>emailaddress1\<close> holds \<^verbatim>\<open>info@contoso.com\<close> and \<^verbatim>\<open>getFormattedValue\<close> returns
  \<^verbatim>\<open>email\<close>. For a name absent from the form it fails with the not-found error.
\<close>

theorem getFormattedValue_returns_format:
  "Attribute_getFormattedValue sample_page ''emailaddress1'' = (Inr (VStr ''email''), sample_page)
   \<and> Attribute_getValue sample_page ''emailaddress1'' = (Inr (VStr ''info@contoso.com''), sample_page)
   \<and> Attribute_getFormattedValue sample_page ''websiteurl''
       = (Inl (AttributeNotFound ''websiteurl''), sample_page)"
  by (simp add: attribute_op_defs waitForXrmReady_def sample_defs access_defs)

text \<open>
  C5. \<^verbatim>\<open>setValues\<close> applies \<^verbatim>\<open>setValue\<close> to the entries in order and is not atomic: when
  the entries before the \<open>k\<close>-th succeed, leaving the page \<open>p1\<close>, and \<^verbatim>\<open>setValue\<close> fails
  on the \<open>k\<close>-th, then \<^verbatim>\<open>setValues\<close> fails with that error and leaves the page \<open>p1\<close>:
  the earlier writes stay (the names written are those of the earlier entries, in order),
  nothing is rolled back, and the entries after the \<open>k\<close>-th are not attempted, whatever
  they are.
\<close>

theorem setValues_stops_at_first_failure:
  assumes "Attribute_setValues p xs settings = (Inr (), p1)"
    and "Attribute_setValue p1 k v settings = (Inl e, p2)"
  shows "Attribute_setValues p (xs @ (k, v) # ys) settings = (Inl e, p1)
    \<and> written (trace p1) = written (trace p) @ map fst xs"
proof -
  from assms(2) have "p2 = p1" by (rule setValue_error_unchanged)
  with assms have "Attribute_setValues p (xs @ (k, v) # ys) settings = (Inl e, p1)"
    by (simp add: setValues_append)
  with setValues_written_names [OF assms(1)] show ?thesis by simp
qed

text \<open>
  C5 on the sample page: \<^verbatim>\<open>name\<close> is written, the read-only \<^verbatim>\<open>createdon\<close> fails, and
  \<^verbatim>\<open>emailaddress1\<close> is not attempted.
\<close>

theorem setValues_stops_at_first_failure_witness:
  "fst (Attribute_setValues sample_page
          [(''name'', VStr ''Fabrikam''), (''createdon'', VNull),
           (''emailaddress1'', VStr ''sales@fabrikam.com'')] NoSettings)
     = Inl (NotEditable ''createdon'')
   \<and> snd (Attribute_setValues sample_page
          [(''name'', VStr ''Fabrikam''), (''createdon'', VNull),
           (''emailaddress1'', VStr ''sales@fabrikam.com'')] NoSettings)
     = snd (Attribute_setValue sample_page ''name'' (VStr ''Fabrikam'') NoSettings)
   \<and> written (trace (snd (Attribute_setValue sample_page ''name'' (VStr ''Fabrikam'') NoSettings)))
     = [''name'']"
proof -
  let ?p1 = "snd (Attribute_setValue sample_page ''name'' (VStr ''Fabrikam'') NoSettings)"
  have ok: "fst (Attribute_setValue sample_page ''name'' (VStr ''Fabrikam'') NoSettings) = Inr ()"
    by (simp add: setValue_defs sample_defs access_defs)
  have h1: "Attribute_setValues sample_page [(''name'', VStr ''Fabrikam'')] NoSettings
      = (Inr (), ?p1)"
    by (cases "Attribute_setValue sample_page ''name'' (VStr ''Fabrikam'') NoSettings")
      (use ok in auto)
  have h2: "Attribute_setValue ?p1 ''createdon'' VNull NoSettings
      = (Inl (NotEditable ''createdon''), ?p1)"
    by (simp add: setValue_defs sample_defs access_defs)
  have t: "written (trace sample_page) = []" by (simp add: sample_page_def)
  from setValues_stops_at_first_failure [OF h1 h2,
      of "[(''emailaddress1'', VStr ''sales@fabrikam.com'')]"] t
  show ?thesis by simp
qed

text \<open>
  C6. The pause after the write and the change notification is the settle time given, with
  500 milliseconds as the default. With the bare number 0, and with \<^verbatim>\<open>settleTime: 0\<close>, the
  merged settings hold 0 but the pause is 500 milliseconds; with the bare number 250 the
  pause is 250 milliseconds.
\<close>

theorem settle_number_zero_waits_500:
  "fst (Attribute_setValue sample_page ''name'' (VStr ''Fabrikam'') (SettleNumber 0)) = Inr ()
   \<and> trace (snd (Attribute_setValue sample_page ''name'' (VStr ''Fabrikam'') (SettleNumber 0)))
       = [SetValue ''name'' (VStr ''Fabrikam''), FireOnChange ''name'', WaitForTimeout 500]
   \<and> settleTime (safeSettings (SettleNumber 0)) = Some 0
   \<and> trace (snd (Attribute_setValue sample_page ''name'' (VStr ''Fabrikam'') (SettleNumber 250)))
       = [SetValue ''name'' (VStr ''Fabrikam''), FireOnChange ''name'', WaitForTimeout 250]
   \<and> trace (snd (Attribute_setValue sample_page ''name'' (VStr ''Fabrikam'')
        (SettingsObject \<lparr> settleTime = Some 0, forceValue = None \<rparr>)))
       = [SetValue ''name'' (VStr ''Fabrikam''), FireOnChange ''name'', WaitForTimeout 500]"
  by (simp add: setValue_defs sample_defs access_defs)

section \<open>Claims about names that are absent from the form\<close>

text \<open>
  C3 as stated fails: for a subgrid name that is not on the form, \<^verbatim>\<open>getRecordCount\<close>,
  \<^verbatim>\<open>getVisibleRecordCount\<close>, \<^verbatim>\<open>getEntityName\<close>, \<^verbatim>\<open>getRecordIds\<close> and \<^verbatim>\<open>isVisible\<close> return
  \<^verbatim>\<open>undefined\<close>, \<^verbatim>\<open>undefined\<close>, \<^verbatim>\<open>undefined\<close>, the empty list and \<^verbatim>\<open>false\<close>; they do not
  raise.
\<close>

theorem subgrid_query_missing_control_counterexample:
  "getControl sample_page ''Opportunities'' = None
   \<and> SubGrid_getRecordCount sample_page ''Opportunities'' = (Inr None, sample_page)
   \<and> SubGrid_getVisibleRecordCount sample_page ''Opportunities'' = (Inr None, sample_page)
   \<and> SubGrid_getEntityName sample_page ''Opportunities'' = (Inr None, sample_page)
   \<and> SubGrid_getRecordIds sample_page ''Opportunities'' = (Inr [], sample_page)
   \<and> SubGrid_isVisible sample_page ''Opportunities'' = (Inr False, sample_page)"
  by (simp add: subgrid_op_defs waitForXrmReady_def getControl_def sample_page_def
      sample_controls_def)

text \<open>
  C3, as the code has it. Given the name of an attribute that is not on the form, the
  operations of \<^verbatim>\<open>Attribute\<close> fail with the attribute-not-found error (\<^verbatim>\<open>setValue\<close> for
  every value other than an invalid date, whose encoding fails first). Given the name of a
  control that is not on the form, the operations of \<^verbatim>\<open>Control\<close> fail with the
  control-not-found error, and \<^verbatim>\<open>openNthRecord\<close> and \<^verbatim>\<open>refresh\<close> of \<^verbatim>\<open>SubGrid\<close> fail with
  the subgrid-not-found error. The error is the result of the call and the page is
  untouched. The other five operations of \<^verbatim>\<open>SubGrid\<close> do not fail: they return
  \<^verbatim>\<open>undefined\<close>, the empty list, or \<^verbatim>\<open>false\<close>.
\<close>

theorem absent_names:
  "(getAttribute p n = None \<longrightarrow>
       Attribute_getRequiredLevel p n = (Inl (AttributeNotFound n), p)
     \<and> Attribute_getValue p n = (Inl (AttributeNotFound n), p)
     \<and> (v \<noteq> VDate None \<longrightarrow> Attribute_setValue p n v s = (Inl (AttributeNotFound n), p))
     \<and> Attribute_getAttributeType p n = (Inl (AttributeNotFound n), p)
     \<and> Attribute_getFormattedValue p n = (Inl (AttributeNotFound n), p)
     \<and> Attribute_isDirty p n = (Inl (AttributeNotFound n), p)
     \<and> Attribute_setRequiredLevel p n level = (Inl (AttributeNotFound n), p))
   \<and> (getControl p n = None \<longrightarrow>
       Control_get p n = (Inl (ControlNotFound n), p)
     \<and> Control_getOptions p n = (Inl (ControlNotFound n), p)
     \<and> Control_setVisible p n b = (Inl (ControlNotFound n), p)
     \<and> Control_setDisabled p n b = (Inl (ControlNotFound n), p)
     \<and> Control_getLabel p n = (Inl (ControlNotFound n), p)
     \<and> Control_setLabel p n l = (Inl (ControlNotFound n), p)
     \<and> SubGrid_openNthRecord p n k = (Inl (SubgridNotFound n), p)
     \<and> SubGrid_refresh p n = (Inl (SubgridNotFound n), p)
     \<and> SubGrid_getRecordCount p n = (Inr None, p)
     \<and> SubGrid_getVisibleRecordCount p n = (Inr None, p)
     \<and> SubGrid_getEntityName p n = (Inr None, p)
     \<and> SubGrid_getRecordIds p n = (Inr [], p)
     \<and> SubGrid_isVisible p n = (Inr False, p))"
proof (intro conjI impI)
  assume a: "getAttribute p n = None"
  show "Attribute_getRequiredLevel p n = (Inl (AttributeNotFound n), p)"
    "Attribute_getValue p n = (Inl (AttributeNotFound n), p)"
    "Attribute_getAttributeType p n = (Inl (AttributeNotFound n), p)"
    "Attribute_getFormattedValue p n = (Inl (AttributeNotFound n), p)"
    "Attribute_isDirty p n = (Inl (AttributeNotFound n), p)"
    "Attribute_setRequiredLevel p n level = (Inl (AttributeNotFound n), p)"
    using a by (simp_all add: attribute_op_defs waitForXrmReady_def)
  assume "v \<noteq> VDate None"
  then show "Attribute_setValue p n v s = (Inl (AttributeNotFound n), p)"
    using a by (rule setValue_absent [rotated])
next
  assume c: "getControl p n = None"
  show "Control_get p n = (Inl (ControlNotFound n), p)"
    "Control_getOptions p n = (Inl (ControlNotFound n), p)"
    "Control_setVisible p n b = (Inl (ControlNotFound n), p)"
    "Control_setDisabled p n b = (Inl (ControlNotFound n), p)"
    "Control_getLabel p n = (Inl (ControlNotFound n), p)"
    "Control_setLabel p n l = (Inl (ControlNotFound n), p)"
    using c by (simp_all add: control_op_defs waitForXrmReady_def)
  show "SubGrid_openNthRecord p n k = (Inl (SubgridNotFound n), p)"
    "SubGrid_refresh p n = (Inl (SubgridNotFound n), p)"
    "SubGrid_getRecordCount p n = (Inr None, p)"
    "SubGrid_getVisibleRecordCount p n = (Inr None, p)"
    "SubGrid_getEntityName p n = (Inr None, p)"
    "SubGrid_getRecordIds p n = (Inr [], p)"
    "SubGrid_isVisible p n = (Inr False, p)"
    using c by (simp_all add: subgrid_op_defs waitForXrmReady_def)
qed

text \<open>C3 on names that the sample page does not have.\<close>

theorem absent_names_witness:
  "Attribute_getValue sample_page ''websiteurl'' = (Inl (AttributeNotFound ''websiteurl''), sample_page)
   \<and> Attribute_setValue sample_page ''websiteurl'' (VStr ''https://contoso.com'') NoSettings
       = (Inl (AttributeNotFound ''websiteurl''), sample_page)
   \<and> Control_get sample_page ''Opportunities'' = (Inl (ControlNotFound ''Opportunities''), sample_page)
   \<and> SubGrid_refresh sample_page ''Opportunities''
       = (Inl (SubgridNotFound ''Opportunities''), sample_page)
   \<and> SubGrid_getRecordIds sample_page ''Opportunities'' = (Inr [], sample_page)"
proof -
  have a: "getAttribute sample_page ''websiteurl'' = None" by (simp add: sample_defs access_defs)
  have c: "getControl sample_page ''Opportunities'' = None" by (simp add: sample_defs access_defs)
  have v: "VStr ''https://contoso.com'' \<noteq> VDate None" by simp
  show ?thesis
    using absent_names [of sample_page "''websiteurl''" "VStr ''https://contoso.com''" NoSettings]
      absent_names [of sample_page "''Opportunities''"] a c v
    by simp
qed

section \<open>Claims about the subgrid\<close>

text \<open>
  C9. For a grid control, \<^verbatim>\<open>getRecordIds\<close> returns one identifier per row, in row order,
  each being the raw identifier with every curly brace removed and the letters A to Z in
  lower case: the result has no brace and no capital letter. For a grid with exactly two
  rows for which the host reports two records, the list holds exactly the two normalized
  identifiers and \<^verbatim>\<open>getRecordCount\<close> returns 2.
\<close>

theorem getRecordIds_normalized_rows:
  assumes "getControl p subgridName = Some c" "ctl_kind c = GridControl entityName g"
  shows "SubGrid_getRecordIds p subgridName
           = (Inr (map (\<lambda>row. normalizedId (row_id row)) (grid_rows g)), p)
    \<and> normalizedId raw
           = map toLowerCase_char (filter (\<lambda>ch. ch \<noteq> CHR ''{'' \<and> ch \<noteq> CHR ''}'') raw)
    \<and> CHR ''{'' \<notin> set (normalizedId raw) \<and> CHR ''}'' \<notin> set (normalizedId raw)
    \<and> set (normalizedId raw) \<inter> set ''ABCDEFGHIJKLMNOPQRSTUVWXYZ'' = {}
    \<and> (grid_rows g = [r1, r2] \<and> grid_totalRecordCount g = 2 \<longrightarrow>
          SubGrid_getRecordIds p subgridName
            = (Inr [normalizedId (row_id r1), normalizedId (row_id r2)], p)
          \<and> SubGrid_getRecordCount p subgridName = (Inr (Some 2), p))"
proof -
  have ids: "SubGrid_getRecordIds p subgridName
           = (Inr (map (\<lambda>row. normalizedId (row_id row)) (grid_rows g)), p)"
    using assms by (simp add: SubGrid_getRecordIds_def waitForXrmReady_def getRecordIds_loop_eq)
  have cnt: "SubGrid_getRecordCount p subgridName = (Inr (Some (grid_totalRecordCount g)), p)"
    using assms by (simp add: SubGrid_getRecordCount_def waitForXrmReady_def)
  have norm: "normalizedId raw
           = map toLowerCase_char (filter (\<lambda>ch. ch \<noteq> CHR ''{'' \<and> ch \<noteq> CHR ''}'') raw)"
    by (simp add: normalizedId_def toLowerCase_def)
  show ?thesis
    using ids cnt norm normalizedId_clean [of raw] by (simp only:) simp
qed

text \<open>C9 on the grid \<^verbatim>\<open>Contacts\<close> of the sample page.\<close>

theorem getRecordIds_normalized_rows_witness:
  "SubGrid_getRecordIds sample_page ''Contacts''
     = (Inr [''0a1b2c3d-0000-4000-8000-00000000000a'', ''0a1b2c3d-0000-4000-8000-00000000000b''],
        sample_page)
   \<and> SubGrid_getRecordCount sample_page ''Contacts'' = (Inr (Some 2), sample_page)"
proof -
  let ?c = "\<lparr> ctl_disabled = False, ctl_visible = True, ctl_label = ''Contacts'',
             ctl_parent = Some section_summary,
             ctl_kind = GridControl ''contact'' contacts_grid \<rparr>"
  let ?r1 = "\<lparr> row_id = ''{0A1B2C3D-0000-4000-8000-00000000000A}'',
            row_ref_id = ''{0A1B2C3D-0000-4000-8000-00000000000A}'',
            row_ref_entityType = ''contact'' \<rparr>"
  let ?r2 = "\<lparr> row_id = ''{0A1B2C3D-0000-4000-8000-00000000000B}'',
            row_ref_id = ''{0A1B2C3D-0000-4000-8000-00000000000B}'',
            row_ref_entityType = ''contact'' \<rparr>"
  have h1: "getControl sample_page ''Contacts'' = Some ?c"
    by (simp add: getControl_def sample_page_def sample_controls_def)
  have h2: "ctl_kind ?c = GridControl ''contact'' contacts_grid" by simp
  have g: "grid_rows contacts_grid = [?r1, ?r2] \<and> grid_totalRecordCount contacts_grid = 2"
    by (simp add: contacts_grid_def)
  have n1: "normalizedId (row_id ?r1) = ''0a1b2c3d-0000-4000-8000-00000000000a''"
    by (simp add: normalizedId_def toLowerCase_def toLowerCase_char_def)
  have n2: "normalizedId (row_id ?r2) = ''0a1b2c3d-0000-4000-8000-00000000000b''"
    by (simp add: normalizedId_def toLowerCase_def toLowerCase_char_def)
  from getRecordIds_normalized_rows [OF h1 h2, of "[]" ?r1 ?r2] g
  have "SubGrid_getRecordIds sample_page ''Contacts''
            = (Inr [normalizedId (row_id ?r1), normalizedId (row_id ?r2)], sample_page)
          \<and> SubGrid_getRecordCount sample_page ''Contacts'' = (Inr (Some 2), sample_page)"
    by blast
  then show ?thesis unfolding n1 n2 .
qed

section \<open>Claims about the factories\<close>

text \<open>
  C7. For every count \<open>n \<ge> 0\<close> and every options object, \<^verbatim>\<open>AccountFactory.createBulk(n, opts)\<close>
  returns exactly \<open>n\<close> payloads; their names are pairwise distinct, whatever the clock
  returns (even the same millisecond for every call); and with the name set aside every
  payload is the same record, the one \<^verbatim>\<open>create(opts)\<close> builds from the options alone.
\<close>

theorem createBulk_count_distinct_shared:
  assumes "0 \<le> n"
  shows "int (length (AccountFactory_createBulk n options now)) = n
    \<and> distinct (map name (AccountFactory_createBulk n options now))
    \<and> map (\<lambda>p. p\<lparr>name := x\<rparr>) (AccountFactory_createBulk n options now)
        = replicate (nat n) ((AccountFactory_create options t)\<lparr>name := x\<rparr>)"
proof -
  let ?f = "\<lambda>k. AccountFactory_create (accountOptions options k) (now (nat k))"
  have eq: "AccountFactory_createBulk n options now = map ?f [0..n - 1]"
    by (simp add: AccountFactory_createBulk_def createBulk_loop_eq)
  have len: "int (length (map ?f [0..n - 1])) = n" using assms by simp
  have "inj_on (name \<circ> ?f) (set [0..n - 1])"
    by (rule inj_onI) (auto dest: bulk_name_inj [rotated 2])
  then have dist: "distinct (map name (map ?f [0..n - 1]))"
    by (simp add: distinct_map comp_def)
  have "map (\<lambda>p. p\<lparr>name := x\<rparr>) (map ?f [0..n - 1])
      = map (\<lambda>k. (AccountFactory_create options t)\<lparr>name := x\<rparr>) [0..n - 1]"
    by (simp add: bulk_other_fields [where x = x and t = t])
  also have "\<dots> = replicate (nat n) ((AccountFactory_create options t)\<lparr>name := x\<rparr>)"
    using assms by (simp add: map_replicate_const)
  finally show ?thesis unfolding eq using len dist by blast
qed

text \<open>C7 on the bulk example of the demo test, with a clock that does not advance.\<close>

theorem createBulk_count_distinct_shared_witness:
  "int (length (AccountFactory_createBulk 3 bulk_options (\<lambda>k. 1700000000000))) = 3
    \<and> distinct (map name (AccountFactory_createBulk 3 bulk_options (\<lambda>k. 1700000000000)))
    \<and> map address1_city (AccountFactory_createBulk 3 bulk_options (\<lambda>k. 1700000000000))
        = [Some ''Portland'', Some ''Portland'', Some ''Portland'']"
proof -
  have a: "(0::int) \<le> 3" by simp
  note w = createBulk_count_distinct_shared [OF a, of bulk_options "\<lambda>k. 1700000000000" "[]" 0]
  from w have "map address1_city (map (\<lambda>p. p\<lparr>name := []\<rparr>) (AccountFactory_createBulk 3 bulk_options (\<lambda>k. 1700000000000)))
        = map address1_city (replicate (nat 3) ((AccountFactory_create bulk_options 0)\<lparr>name := []\<rparr>))"
    by simp
  then have "map address1_city (AccountFactory_createBulk 3 bulk_options (\<lambda>k. 1700000000000))
        = [Some ''Portland'', Some ''Portland'', Some ''Portland'']"
    by (simp add: comp_def AccountFactory_create_def bulk_options_def no_account_options_def
        map_truthy_def numeral_3_eq_3)
  with w show ?thesis by simp
qed

text \<open>
  C8. When the options hold a target record identifier (\<^verbatim>\<open>parentAccountId\<close> or
  \<^verbatim>\<open>primaryContactId\<close> of an account, \<^verbatim>\<open>accountId\<close> of a contact), the payload holds the
  matching binding key with the relative path \<^verbatim>\<open>/<collection>(<identifier>)\<close> as its value:
  \<^verbatim>\<open>/accounts(id)\<close> for \<^verbatim>\<open>parentaccountid@odata.bind\<close> and for
  \<^verbatim>\<open>parentcustomerid_account@odata.bind\<close>, \<^verbatim>\<open>/contacts(id)\<close> for
  \<^verbatim>\<open>primarycontactid@odata.bind\<close>. When the option is absent the payload has no such key.
  An identifier is a text that is not empty.
\<close>

theorem relationship_binding_keys:
  assumes "rid \<noteq> []"
  shows "parentaccountid_odata_bind
           (AccountFactory_create (options\<lparr> opt_parentAccountId := Some rid \<rparr>) ts)
           = Some (''/accounts('' @ rid @ '')'')
    \<and> primarycontactid_odata_bind
           (AccountFactory_create (options\<lparr> opt_primaryContactId := Some rid \<rparr>) ts)
           = Some (''/contacts('' @ rid @ '')'')
    \<and> c_parentcustomerid_account_odata_bind
           (ContactFactory_create (coptions\<lparr> copt_accountId := Some rid \<rparr>) ts)
           = Some (''/accounts('' @ rid @ '')'')
    \<and> parentaccountid_odata_bind
           (AccountFactory_create (options\<lparr> opt_parentAccountId := None \<rparr>) ts) = None
    \<and> primarycontactid_odata_bind
           (AccountFactory_create (options\<lparr> opt_primaryContactId := None \<rparr>) ts) = None
    \<and> c_parentcustomerid_account_odata_bind
           (ContactFactory_create (coptions\<lparr> copt_accountId := None \<rparr>) ts) = None"
  using assms by (simp add: AccountFactory_create_def ContactFactory_create_def odata_bind_def)

text \<open>C8 on the identifier \<^verbatim>\<open>0a1b\<close>.\<close>

theorem relationship_binding_keys_witness:
  "parentaccountid_odata_bind
     (AccountFactory_create (no_account_options\<lparr> opt_parentAccountId := Some ''0a1b'' \<rparr>) 0)
     = Some ''/accounts(0a1b)''
   \<and> primarycontactid_odata_bind
     (AccountFactory_create (no_account_options\<lparr> opt_primaryContactId := Some ''0a1b'' \<rparr>) 0)
     = Some ''/contacts(0a1b)''
   \<and> c_parentcustomerid_account_odata_bind
     (ContactFactory_create (no_contact_options\<lparr> copt_accountId := Some ''0a1b'' \<rparr>) 0)
     = Some ''/accounts(0a1b)''
   \<and> parentaccountid_odata_bind (AccountFactory_create no_account_options 0) = None"
proof -
  have a: "''0a1b'' \<noteq> []" by simp
  show ?thesis
    using relationship_binding_keys [OF a, of no_account_options 0 no_contact_options]
    by (simp add: no_account_options_def)
qed

text \<open>
  C10. An optional text option given as the empty string is left out of the payload
  (phone, secondary phone, email, website, address line, city, state, postal code, country
  and description of an account; email, phone, mobile, job title and description of a
  contact), while the numeric options \<^verbatim>\<open>industry\<close>, \<^verbatim>\<open>revenue\<close>, \<^verbatim>\<open>employees\<close> and
  \<^verbatim>\<open>preferredContactMethod\<close> are copied whenever they are given, so that the number 0 is
  kept; a numeric option that is absent leaves no field.
\<close>

theorem falsy_strings_dropped_numbers_kept:
  "telephone1 (AccountFactory_create (options\<lparr> opt_phone := Some [] \<rparr>) ts) = None
   \<and> telephone2 (AccountFactory_create (options\<lparr> opt_secondaryPhone := Some [] \<rparr>) ts) = None
   \<and> emailaddress1 (AccountFactory_create (options\<lparr> opt_email := Some [] \<rparr>) ts) = None
   \<and> websiteurl (AccountFactory_create (options\<lparr> opt_website := Some [] \<rparr>) ts) = None
   \<and> address1_line1 (AccountFactory_create (options\<lparr> opt_addressLine1 := Some [] \<rparr>) ts) = None
   \<and> address1_city (AccountFactory_create (options\<lparr> opt_city := Some [] \<rparr>) ts) = None
   \<and> address1_stateorprovince (AccountFactory_create (options\<lparr> opt_state := Some [] \<rparr>) ts) = None
   \<and> address1_postalcode (AccountFactory_create (options\<lparr> opt_postalCode := Some [] \<rparr>) ts) = None
   \<and> address1_country (AccountFactory_create (options\<lparr> opt_country := Some [] \<rparr>) ts) = None
   \<and> description (AccountFactory_create (options\<lparr> opt_description := Some [] \<rparr>) ts) = None
   \<and> c_emailaddress1 (ContactFactory_create (coptions\<lparr> copt_email := Some [] \<rparr>) ts) = None
   \<and> c_telephone1 (ContactFactory_create (coptions\<lparr> copt_phone := Some [] \<rparr>) ts) = None
   \<and> c_mobilephone (ContactFactory_create (coptions\<lparr> copt_mobile := Some [] \<rparr>) ts) = None
   \<and> c_jobtitle (ContactFactory_create (coptions\<lparr> copt_jobTitle := Some [] \<rparr>) ts) = None
   \<and> c_description (ContactFactory_create (coptions\<lparr> copt_description := Some [] \<rparr>) ts) = None
   \<and> industrycode (AccountFactory_create (options\<lparr> opt_industry := Some k \<rparr>) ts) = Some k
   \<and> revenue (AccountFactory_create (options\<lparr> opt_revenue := Some k \<rparr>) ts) = Some k
   \<and> numberofemployees (AccountFactory_create (options\<lparr> opt_employees := Some k \<rparr>) ts) = Some k
   \<and> c_preferredcontactmethodcode
         (ContactFactory_create (coptions\<lparr> copt_preferredContactMethod := Some k \<rparr>) ts) = Some k
   \<and> revenue (AccountFactory_create (options\<lparr> opt_revenue := Some 0 \<rparr>) ts) = Some 0
   \<and> industrycode (AccountFactory_create (options\<lparr> opt_industry := None \<rparr>) ts) = None
   \<and> revenue (AccountFactory_create (options\<lparr> opt_revenue := None \<rparr>) ts) = None
   \<and> numberofemployees (AccountFactory_create (options\<lparr> opt_employees := None \<rparr>) ts) = None
   \<and> c_preferredcontactmethodcode
         (ContactFactory_create (coptions\<lparr> copt_preferredContactMethod := None \<rparr>) ts) = None"
  by (simp add: AccountFactory_create_def ContactFactory_create_def map_truthy_def)

end
